theory Spec2Isabelle
  imports Complex_Main
begin

section \<open>JavaScript values\<close>

text \<open>
  A JavaScript \<^verbatim>\<open>number\<close> is an IEEE binary64 value. The finite ones are modelled by
  the real numbers they denote (\<open>NaN\<close> and the infinities are left out, and \<open>-0\<close> is
  \<open>0\<close>). Every arithmetic operation on costs (those of \<^verbatim>\<open>pricing.ts\<close> and the sum of
  the reducer) and every decimal literal is rounded to the nearest binary64 value, ties
  to even, by \<open>fl\<close> below. The counters of the route are whole numbers far below
  \<open>2\<^sup>5\<^sup>3\<close>, where binary64 addition is exact, so they are added without rounding.
  A JavaScript string is a \<^typ>\<open>string\<close>, one \<^typ>\<open>char\<close> per code unit. A thrown value is
  either an \<^verbatim>\<open>Error\<close> object with its message or some other value (the code tells
  them apart with \<^verbatim>\<open>instanceof Error\<close>).
\<close>

type_synonym number = real

text \<open>
  Rounding to binary64. \<open>binade x\<close> is the exponent \<open>e\<close> with \<open>2\<^sup>e \<le> |x| < 2\<^sup>e\<^sup>+\<^sup>1\<close>, kept
  within the exponent range \<open>-1022 .. 1023\<close> (below \<open>2\<^sup>-\<^sup>1\<^sup>0\<^sup>2\<^sup>2\<close> the numbers are subnormal
  and share the exponent \<open>-1022\<close>); it is found by stepping up or down from \<open>0\<close>. The
  spacing of the binary64 values around \<open>x\<close> is \<open>ulp x = 2\<^sup>e\<^sup>-\<^sup>5\<^sup>2\<close>, and \<open>fl x\<close> is the
  multiple of it nearest to \<open>x\<close>, the even multiple on a tie. Beyond the largest finite
  value \<open>fl\<close> keeps rounding with the last spacing instead of overflowing; the costs
  computed from finite token counts stay far below that.
\<close>

definition pow2 :: "int \<Rightarrow> real" where
  "pow2 e = (if 0 \<le> e then 2 ^ nat e else 1 / 2 ^ nat (- e))"

fun searchUp :: "nat \<Rightarrow> int \<Rightarrow> real \<Rightarrow> int" where
  "searchUp 0 e a = e"
| "searchUp (Suc n) e a = (if pow2 (e + 1) \<le> a then searchUp n (e + 1) a else e)"

fun searchDown :: "nat \<Rightarrow> int \<Rightarrow> real \<Rightarrow> int" where
  "searchDown 0 e a = e"
| "searchDown (Suc n) e a = (if a < pow2 e then searchDown n (e - 1) a else e)"

definition binade :: "real \<Rightarrow> int" where
  "binade x = (if 1 \<le> \<bar>x\<bar> then searchUp 1023 0 \<bar>x\<bar> else searchDown 1022 0 \<bar>x\<bar>)"

definition roundEven :: "real \<Rightarrow> int" where
  "roundEven y =
     (let f = \<lfloor>y\<rfloor>; r = y - of_int f
      in if r < 1 / 2 then f else if 1 / 2 < r then f + 1 else if even f then f else f + 1)"

definition ulp :: "real \<Rightarrow> real" where
  "ulp x = pow2 (binade x - 52)"

definition fl :: "real \<Rightarrow> number" where
  "fl x = (if x = 0 then 0 else of_int (roundEven (x / ulp x)) * ulp x)"

datatype thrown = JsError (message: string) | NonError

section \<open>models.ts: the model table\<close>

text \<open>A price such as \<^verbatim>\<open>0.005\<close> is the binary64 value nearest to that decimal.\<close>

datatype provider = openai | anthropic

record pricing =
  pricing_input :: number
  pricing_output :: number

record modelConfig =
  mc_id :: string
  mc_name :: string
  displayName :: string
  mc_provider :: provider
  mc_pricing :: pricing
  maxTokens :: nat
  supportsStreaming :: bool

definition OPENAI_MODELS :: "modelConfig list" where
  "OPENAI_MODELS =
    [\<lparr>mc_id = ''gpt-4o'', mc_name = ''gpt-4o'', displayName = ''GPT-4o'',
       mc_provider = openai,
       mc_pricing = \<lparr>pricing_input = fl (5 / 1000), pricing_output = fl (15 / 1000)\<rparr>,
       maxTokens = 128000, supportsStreaming = True\<rparr>,
     \<lparr>mc_id = ''gpt-4o-mini'', mc_name = ''gpt-4o-mini'', displayName = ''GPT-4o Mini'',
       mc_provider = openai,
       mc_pricing = \<lparr>pricing_input = fl (15 / 100000), pricing_output = fl (6 / 10000)\<rparr>,
       maxTokens = 128000, supportsStreaming = True\<rparr>,
     \<lparr>mc_id = ''gpt-4-turbo'', mc_name = ''gpt-4-turbo'', displayName = ''GPT-4 Turbo'',
       mc_provider = openai,
       mc_pricing = \<lparr>pricing_input = fl (1 / 100), pricing_output = fl (3 / 100)\<rparr>,
       maxTokens = 128000, supportsStreaming = True\<rparr>,
     \<lparr>mc_id = ''gpt-3.5-turbo'', mc_name = ''gpt-3.5-turbo'', displayName = ''GPT-3.5 Turbo'',
       mc_provider = openai,
       mc_pricing = \<lparr>pricing_input = fl (15 / 10000), pricing_output = fl (2 / 1000)\<rparr>,
       maxTokens = 16385, supportsStreaming = True\<rparr>]"

definition ANTHROPIC_MODELS :: "modelConfig list" where
  "ANTHROPIC_MODELS =
    [\<lparr>mc_id = ''claude-3-5-sonnet-20241022'', mc_name = ''claude-3-5-sonnet-20241022'',
       displayName = ''Claude 3.5 Sonnet'', mc_provider = anthropic,
       mc_pricing = \<lparr>pricing_input = fl (3 / 1000), pricing_output = fl (15 / 1000)\<rparr>,
       maxTokens = 200000, supportsStreaming = True\<rparr>,
     \<lparr>mc_id = ''claude-3-5-haiku-20241022'', mc_name = ''claude-3-5-haiku-20241022'',
       displayName = ''Claude 3.5 Haiku'', mc_provider = anthropic,
       mc_pricing = \<lparr>pricing_input = fl (8 / 10000), pricing_output = fl (4 / 1000)\<rparr>,
       maxTokens = 200000, supportsStreaming = True\<rparr>,
     \<lparr>mc_id = ''claude-3-opus-20240229'', mc_name = ''claude-3-opus-20240229'',
       displayName = ''Claude 3 Opus'', mc_provider = anthropic,
       mc_pricing = \<lparr>pricing_input = fl (15 / 1000), pricing_output = fl (75 / 1000)\<rparr>,
       maxTokens = 200000, supportsStreaming = True\<rparr>]"

definition ALL_MODELS :: "modelConfig list" where
  "ALL_MODELS = OPENAI_MODELS @ ANTHROPIC_MODELS"

text \<open>\<^verbatim>\<open>ALL_MODELS.find(model => model.id === modelId) || null\<close>\<close>

definition getModelConfig :: "string \<Rightarrow> modelConfig option" where
  "getModelConfig modelId = find (\<lambda>model. mc_id model = modelId) ALL_MODELS"

section \<open>pricing.ts: the accountant\<close>

record tokenUsage =
  tu_input :: number
  tu_output :: number
  tu_total :: number

record costCalculation =
  cc_inputTokens :: number
  cc_outputTokens :: number
  cc_inputCost :: number
  cc_outputCost :: number
  cc_totalCost :: number

text \<open>
  \<^verbatim>\<open>parseFloat(x.toFixed(6))\<close>. \<^verbatim>\<open>toFixed\<close> strips the sign, takes the integer \<open>n\<close> for
  which \<open>n / 10\<^sup>6 - x\<close> is closest to zero for the exact value \<open>x\<close> of the double, the
  larger one on a tie, prints it with six decimals and puts the sign back;
  \<^verbatim>\<open>parseFloat\<close> reads that decimal as the nearest double. (From \<open>10\<^sup>2\<^sup>1\<close> on \<^verbatim>\<open>toFixed\<close>
  prints the number itself; a double of that size is a whole number, so that \<open>n / 10\<^sup>6\<close>
  is the number itself here too.)
\<close>

definition toFixed6 :: "number \<Rightarrow> number" where
  "toFixed6 x =
     (if x < 0 then - fl (of_int \<lfloor>(- x) * 10 ^ 6 + 1 / 2\<rfloor> / 10 ^ 6)
      else fl (of_int \<lfloor>x * 10 ^ 6 + 1 / 2\<rfloor> / 10 ^ 6))"

definition unknownModelError :: "string \<Rightarrow> thrown" where
  "unknownModelError modelId = JsError (''Unknown model for cost calculation: '' @ modelId)"

definition calculateCost :: "tokenUsage \<Rightarrow> string \<Rightarrow> thrown + costCalculation" where
  "calculateCost tokenUsage modelId =
     (case getModelConfig modelId of
        None \<Rightarrow> Inl (unknownModelError modelId)
      | Some modelConfig \<Rightarrow>
          (let pricing = mc_pricing modelConfig;
               inputCost = fl (fl (tu_input tokenUsage / 1000) * pricing_input pricing);
               outputCost = fl (fl (tu_output tokenUsage / 1000) * pricing_output pricing);
               totalCost = fl (inputCost + outputCost)
           in Inr \<lparr>cc_inputTokens = tu_input tokenUsage,
                    cc_outputTokens = tu_output tokenUsage,
                    cc_inputCost = toFixed6 inputCost,
                    cc_outputCost = toFixed6 outputCost,
                    cc_totalCost = toFixed6 totalCost\<rparr>))"

definition calculateLiveCost :: "number \<Rightarrow> number \<Rightarrow> string \<Rightarrow> thrown + number" where
  "calculateLiveCost inputTokens outputTokens modelId =
     (let tokenUsage = \<lparr>tu_input = inputTokens, tu_output = outputTokens,
                         tu_total = fl (inputTokens + outputTokens)\<rparr>
      in case calculateCost tokenUsage modelId of
           Inl e \<Rightarrow> Inl e
         | Inr c \<Rightarrow> Inr (cc_totalCost c))"

text \<open>
  \<^verbatim>\<open>MODEL_PRICING\<close> of pricing.ts, the second copy of the prices (USD per 1000 tokens).
  \<^verbatim>\<open>calculateCost\<close> does not read it: it takes the prices from the model descriptor.
\<close>

definition MODEL_PRICING :: "(provider \<times> (string \<times> pricing) list) list" where
  "MODEL_PRICING =
     [(openai,
        [(''gpt-4o'', \<lparr>pricing_input = fl (5 / 1000), pricing_output = fl (15 / 1000)\<rparr>),
         (''gpt-4o-mini'', \<lparr>pricing_input = fl (15 / 100000), pricing_output = fl (6 / 10000)\<rparr>),
         (''gpt-4-turbo'', \<lparr>pricing_input = fl (1 / 100), pricing_output = fl (3 / 100)\<rparr>),
         (''gpt-3.5-turbo'', \<lparr>pricing_input = fl (15 / 10000), pricing_output = fl (2 / 1000)\<rparr>)]),
      (anthropic,
        [(''claude-3-5-sonnet-20241022'', \<lparr>pricing_input = fl (3 / 1000), pricing_output = fl (15 / 1000)\<rparr>),
         (''claude-3-5-haiku-20241022'', \<lparr>pricing_input = fl (8 / 10000), pricing_output = fl (4 / 1000)\<rparr>),
         (''claude-3-opus-20240229'', \<lparr>pricing_input = fl (15 / 1000), pricing_output = fl (75 / 1000)\<rparr>)])]"

text \<open>
  The spec's words "rounded to 6 decimal places", for doubles: \<open>r\<close> is the double
  nearest to a whole number of millionths, and no other whole number of millionths is
  nearer to \<open>x\<close> than that one.
\<close>

definition rounded6 :: "number \<Rightarrow> number \<Rightarrow> bool" where
  "rounded6 x r = (\<exists>n :: int. \<bar>of_int n - x * 10 ^ 6\<bar> \<le> 1 / 2 \<and> r = fl (of_int n / 10 ^ 6))"

section \<open>tokenizer.ts: token estimation\<close>

definition OPENAI_CHARS_PER_TOKEN :: number where
  "OPENAI_CHARS_PER_TOKEN = 4"

definition ANTHROPIC_CHARS_PER_TOKEN :: number where
  "ANTHROPIC_CHARS_PER_TOKEN = 38 / 10"

definition DEFAULT_CHARS_PER_TOKEN :: number where
  "DEFAULT_CHARS_PER_TOKEN = 4"

text \<open>
  The white space and line terminators that \<^verbatim>\<open>String.prototype.trim\<close> strips, as far as
  they are code units below 256: TAB, LF, VT, FF, CR, SPACE and NO-BREAK SPACE.
\<close>

definition isWhiteSpace :: "char \<Rightarrow> bool" where
  "isWhiteSpace c =
     (c \<in> {CHR 0x09, CHR 0x0A, CHR 0x0B, CHR 0x0C, CHR 0x0D, CHR 0x20, CHR 0xA0})"

definition trim :: "string \<Rightarrow> string" where
  "trim s = rev (dropWhile isWhiteSpace (rev (dropWhile isWhiteSpace s)))"

definition startsWith :: "string \<Rightarrow> string \<Rightarrow> bool" where
  "startsWith s p = (take (length p) s = p)"

text \<open>\<^verbatim>\<open>s.includes(p)\<close>: \<open>p\<close> starts at some position of \<open>s\<close>.\<close>

fun str_includes :: "string \<Rightarrow> string \<Rightarrow> bool" where
  "str_includes [] p = (p = [])"
| "str_includes (c # s) p = (startsWith (c # s) p \<or> str_includes s p)"

text \<open>\<^verbatim>\<open>Math.ceil\<close> of a quotient is a whole number: the result type is \<^typ>\<open>int\<close>.\<close>

definition countOpenAITokens :: "string \<Rightarrow> string \<Rightarrow> int" where
  "countOpenAITokens text modelName =
     (if trim text = [] then 0
      else (let cleanText = trim text
            in \<lceil>real (length cleanText) / OPENAI_CHARS_PER_TOKEN\<rceil>))"

definition countAnthropicTokens :: "string \<Rightarrow> string \<Rightarrow> int" where
  "countAnthropicTokens text modelName =
     (if trim text = [] then 0
      else (let cleanText = trim text
            in \<lceil>real (length cleanText) / ANTHROPIC_CHARS_PER_TOKEN\<rceil>))"

definition countTokens :: "string \<Rightarrow> string \<Rightarrow> int" where
  "countTokens text modelId =
     (if text = [] then 0
      else if startsWith modelId ''gpt-'' \<or> str_includes modelId ''openai''
        then countOpenAITokens text modelId
      else if startsWith modelId ''claude-'' \<or> str_includes modelId ''anthropic''
        then countAnthropicTokens text modelId
      else (let cleanText = trim text
            in \<lceil>real (length cleanText) / DEFAULT_CHARS_PER_TOKEN\<rceil>))"

text \<open>
  The spec's words for the estimate: the provider family is read off the model id, and
  each family has its characters-per-token constant.
\<close>

definition charsPerToken :: "string \<Rightarrow> number" where
  "charsPerToken modelId =
     (if startsWith modelId ''gpt-'' \<or> str_includes modelId ''openai'' then 4
      else if startsWith modelId ''claude-'' \<or> str_includes modelId ''anthropic'' then 38 / 10
      else 4)"

section \<open>models.ts: creating the model instances\<close>

text \<open>
  The process environment holds the two API keys. \<^verbatim>\<open>!process.env.KEY\<close> is true for an
  unset variable and for the empty string. The LangChain constructors are taken to
  succeed once the key is there; the instance is represented by its class and model name.
\<close>

datatype modelInstance = ChatOpenAI string | ChatAnthropic string

definition falsy :: "string option \<Rightarrow> bool" where
  "falsy s = (case s of None \<Rightarrow> True | Some t \<Rightarrow> t = [])"

definition createOpenAIModel :: "string option \<Rightarrow> string \<Rightarrow> thrown + modelInstance" where
  "createOpenAIModel OPENAI_API_KEY modelName =
     (if falsy OPENAI_API_KEY
      then Inl (JsError (''OPENAI_API_KEY ist nicht gesetzt. Bitte f'' @ [CHR 0xFC] @
                         ''ge deinen API-Key in .env.local hinzu.''))
      else Inr (ChatOpenAI modelName))"

definition createAnthropicModel :: "string option \<Rightarrow> string \<Rightarrow> thrown + modelInstance" where
  "createAnthropicModel ANTHROPIC_API_KEY modelName =
     (if falsy ANTHROPIC_API_KEY
      then Inl (JsError (''ANTHROPIC_API_KEY ist nicht gesetzt. Bitte f'' @ [CHR 0xFC] @
                         ''ge deinen API-Key in .env.local hinzu.''))
      else Inr (ChatAnthropic modelName))"

text \<open>
  The \<^verbatim>\<open>default\<close> branch of the provider switch (\<^verbatim>\<open>Unknown provider\<close>) has no
  counterpart: every descriptor of the table has one of the two providers.
\<close>

definition createModelInstance ::
  "string option \<Rightarrow> string option \<Rightarrow> string \<Rightarrow> thrown + modelInstance" where
  "createModelInstance OPENAI_API_KEY ANTHROPIC_API_KEY modelId =
     (case getModelConfig modelId of
        None \<Rightarrow> Inl (JsError (''Unknown model: '' @ modelId))
      | Some config \<Rightarrow>
          (case mc_provider config of
             openai \<Rightarrow> createOpenAIModel OPENAI_API_KEY (mc_name config)
           | anthropic \<Rightarrow> createAnthropicModel ANTHROPIC_API_KEY (mc_name config)))"

section \<open>The stream events\<close>

text \<open>
  \<^verbatim>\<open>StreamEvent\<close> is \<^verbatim>\<open>{type, model, data}\<close> with \<^verbatim>\<open>data\<close> a \<^verbatim>\<open>StreamResponse\<close>
  \<^verbatim>\<open>{id, model, delta, tokens, cost, isComplete, error?}\<close>. The fields carry the prefixes
  \<open>ev_\<close> and \<open>sr_\<close> where two records share a name.
\<close>

datatype modelKey = model1 | model2 | system

datatype eventType = start | token | complete' | error

record streamResponse =
  sr_id :: string
  sr_model :: string
  delta :: string
  tokens :: tokenUsage
  cost :: number
  isComplete :: bool
  sr_error :: "string option"

record streamEvent =
  ev_type :: eventType
  ev_model :: modelKey
  ev_data :: streamResponse

text \<open>\<^verbatim>\<open>a || b\<close> for a string \<open>a\<close> that may be undefined: \<open>b\<close> when \<open>a\<close> is undefined or empty.\<close>

definition or_string :: "string option \<Rightarrow> string \<Rightarrow> string" where
  "or_string a b = (case a of None \<Rightarrow> b | Some s \<Rightarrow> (if s = [] then b else s))"

text \<open>\<^verbatim>\<open>error instanceof Error ? error.message : fallback\<close>\<close>

definition errorMessage :: "thrown \<Rightarrow> string \<Rightarrow> string" where
  "errorMessage e fallback = (case e of JsError m \<Rightarrow> m | NonError \<Rightarrow> fallback)"

section \<open>route.ts: one slot task\<close>

text \<open>
  What \<^verbatim>\<open>modelInstance.stream([message])\<close> does is the backend's business: either the
  call rejects, or it gives an iterator that yields finitely many chunks and then ends or
  throws. A chunk carries \<^verbatim>\<open>content\<close> and \<^verbatim>\<open>text\<close>, either of which may be missing.
\<close>

record chunk =
  chunk_content :: "string option"
  chunk_text :: "string option"

datatype backend = FailsToStart thrown | Yields "chunk list" "thrown option"

text \<open>The local variables of \<^verbatim>\<open>streamModel\<close>.\<close>

record streamVars =
  fullContent :: string
  tokenCount :: number
  inputTokens :: number
  outputTokens :: number

record streamResult =
  res_content :: string
  res_tokens :: tokenUsage
  res_cost :: number

definition usageOf :: "streamVars \<Rightarrow> tokenUsage" where
  "usageOf v = \<lparr>tu_input = inputTokens v, tu_output = outputTokens v,
                 tu_total = inputTokens v + outputTokens v\<rparr>"

definition tokenEvent ::
  "string \<Rightarrow> modelKey \<Rightarrow> string \<Rightarrow> string \<Rightarrow> streamVars \<Rightarrow> number \<Rightarrow> streamEvent" where
  "tokenEvent modelId modelKey sessionId d v liveCost =
     \<lparr>ev_type = token, ev_model = modelKey,
      ev_data = \<lparr>sr_id = sessionId, sr_model = modelId, delta = d, tokens = usageOf v,
                 cost = liveCost, isComplete = False, sr_error = None\<rparr>\<rparr>"

definition completeEvent ::
  "string \<Rightarrow> modelKey \<Rightarrow> string \<Rightarrow> tokenUsage \<Rightarrow> number \<Rightarrow> streamEvent" where
  "completeEvent modelId modelKey sessionId finalUsage finalCost =
     \<lparr>ev_type = complete', ev_model = modelKey,
      ev_data = \<lparr>sr_id = sessionId, sr_model = modelId, delta = [], tokens = finalUsage,
                 cost = finalCost, isComplete = True, sr_error = None\<rparr>\<rparr>"

definition errorEvent ::
  "string \<Rightarrow> modelKey \<Rightarrow> string \<Rightarrow> tokenUsage \<Rightarrow> number \<Rightarrow> string \<Rightarrow> streamEvent" where
  "errorEvent modelId modelKey sessionId usage c msg =
     \<lparr>ev_type = error, ev_model = modelKey,
      ev_data = \<lparr>sr_id = sessionId, sr_model = modelId, delta = [], tokens = usage,
                 cost = c, isComplete = True, sr_error = Some msg\<rparr>\<rparr>"

text \<open>
  \<^verbatim>\<open>chunk.content || chunk.text || ''\<close>, and the body of the \<^verbatim>\<open>for await\<close> loop for
  one chunk: the thrown value if \<^verbatim>\<open>calculateLiveCost\<close> throws, the variables after the
  body, the events sent by it.
\<close>

definition deltaOf :: "chunk \<Rightarrow> string" where
  "deltaOf c = or_string (chunk_content c) (or_string (chunk_text c) [])"

definition onChunk ::
  "string \<Rightarrow> modelKey \<Rightarrow> string \<Rightarrow> chunk \<Rightarrow> streamVars
     \<Rightarrow> thrown option \<times> streamVars \<times> streamEvent list" where
  "onChunk modelId modelKey sessionId c v =
     (let d = deltaOf c
      in if d \<noteq> [] then
           (let v' = v\<lparr>fullContent := fullContent v @ d,
                        tokenCount := tokenCount v + 1,
                        outputTokens := outputTokens v + 1\<rparr>
            in case calculateLiveCost (inputTokens v') (outputTokens v') modelId of
                 Inl e \<Rightarrow> (Some e, v', [])
               | Inr liveCost \<Rightarrow>
                   (None, v', [tokenEvent modelId modelKey sessionId d v' liveCost]))
         else (None, v, []))"

fun forAwait ::
  "string \<Rightarrow> modelKey \<Rightarrow> string \<Rightarrow> chunk list \<Rightarrow> streamVars
     \<Rightarrow> thrown option \<times> streamVars \<times> streamEvent list" where
  "forAwait modelId modelKey sessionId [] v = (None, v, [])"
| "forAwait modelId modelKey sessionId (c # rest) v =
     (case onChunk modelId modelKey sessionId c v of
        (Some e, v', sent) \<Rightarrow> (Some e, v', sent)
      | (None, v', sent) \<Rightarrow>
          (case forAwait modelId modelKey sessionId rest v' of
             (r, v'', sent') \<Rightarrow> (r, v'', sent @ sent')))"

text \<open>
  The \<^verbatim>\<open>catch\<close> block: the cost is computed first (it is an argument of the event), so
  when that throws no event is sent and the new exception leaves the function; otherwise
  the error event is sent and the caught value is thrown again.
\<close>

definition catchBlock ::
  "string \<Rightarrow> modelKey \<Rightarrow> string \<Rightarrow> streamVars \<Rightarrow> thrown
     \<Rightarrow> streamEvent list \<times> (thrown + streamResult)" where
  "catchBlock modelId modelKey sessionId v err =
     (case calculateLiveCost (inputTokens v) (outputTokens v) modelId of
        Inl e \<Rightarrow> ([], Inl e)
      | Inr c \<Rightarrow>
          ([errorEvent modelId modelKey sessionId (usageOf v) c
              (errorMessage err ''Streaming-Fehler'')],
           Inl err))"

definition afterLoop ::
  "string \<Rightarrow> modelKey \<Rightarrow> string \<Rightarrow> streamVars
     \<Rightarrow> streamEvent list \<times> (thrown + streamResult)" where
  "afterLoop modelId modelKey sessionId v =
     (let finalUsage = usageOf v
      in case calculateLiveCost (inputTokens v) (outputTokens v) modelId of
           Inl e \<Rightarrow> catchBlock modelId modelKey sessionId v e
         | Inr finalCost \<Rightarrow>
             ([completeEvent modelId modelKey sessionId finalUsage finalCost],
              Inr \<lparr>res_content = fullContent v, res_tokens = finalUsage,
                   res_cost = finalCost\<rparr>))"

text \<open>
  \<^verbatim>\<open>streamModel\<close>: the events it sends, in order, and how its promise settles
  (\<open>Inl\<close> rejected, \<open>Inr\<close> fulfilled). The first argument is what the instance's
  \<^verbatim>\<open>stream\<close> call does for the message.
\<close>

definition streamModel ::
  "backend \<Rightarrow> string \<Rightarrow> modelKey \<Rightarrow> string \<Rightarrow> streamEvent list \<times> (thrown + streamResult)" where
  "streamModel modelInstance modelId modelKey sessionId =
     (let v0 = \<lparr>fullContent = [], tokenCount = 0, inputTokens = 0, outputTokens = 0\<rparr>
      in case modelInstance of
           FailsToStart e \<Rightarrow> catchBlock modelId modelKey sessionId v0 e
         | Yields chunks fin \<Rightarrow>
             (case forAwait modelId modelKey sessionId chunks v0 of
                (Some e, v, sent) \<Rightarrow>
                  (case catchBlock modelId modelKey sessionId v e of
                     (evs, r) \<Rightarrow> (sent @ evs, r))
              | (None, v, sent) \<Rightarrow>
                  (case fin of
                     Some e \<Rightarrow>
                       (case catchBlock modelId modelKey sessionId v e of
                          (evs, r) \<Rightarrow> (sent @ evs, r))
                   | None \<Rightarrow>
                       (case afterLoop modelId modelKey sessionId v of
                          (evs, r) \<Rightarrow> (sent @ evs, r)))))"

section \<open>The history store\<close>

text \<open>
  The \<^verbatim>\<open>prompt\<close> table behind the Prisma client: a list of rows, oldest first. A row is
  the data given to \<^verbatim>\<open>create\<close> plus the id and the creation time the store assigns.
  Prisma itself is a library outside the repository; its three calls used here are
  modelled from its documented behaviour: \<^verbatim>\<open>create\<close> appends one row, \<^verbatim>\<open>delete\<close>
  removes the row with the given unique id and rejects when there is none,
  \<^verbatim>\<open>deleteMany\<close> removes every matching row and resolves with their number. Any call
  rejects when the database cannot be reached (\<open>dbError\<close>).
\<close>

record promptData =
  p_content :: string
  p_model1 :: string
  p_model2 :: string
  response1 :: "string option"
  response2 :: "string option"
  cost1 :: "number option"
  cost2 :: "number option"

record promptRow =
  row_id :: string
  row_data :: promptData
  createdAt :: nat

record store =
  rows :: "promptRow list"
  dbError :: "thrown option"
  newId :: string
  now :: nat

definition prisma_prompt_create :: "store \<Rightarrow> promptData \<Rightarrow> thrown + store" where
  "prisma_prompt_create db d =
     (case dbError db of
        Some e \<Rightarrow> Inl e
      | None \<Rightarrow>
          Inr (db\<lparr>rows := rows db @ [\<lparr>row_id = newId db, row_data = d, createdAt = now db\<rparr>]\<rparr>))"

definition prisma_prompt_delete :: "store \<Rightarrow> string \<Rightarrow> thrown + store" where
  "prisma_prompt_delete db i =
     (case dbError db of
        Some e \<Rightarrow> Inl e
      | None \<Rightarrow>
          (if list_ex (\<lambda>r. row_id r = i) (rows db)
           then Inr (db\<lparr>rows := filter (\<lambda>r. row_id r \<noteq> i) (rows db)\<rparr>)
           else Inl (JsError ''Record to delete does not exist.'')))"

definition prisma_prompt_deleteMany :: "store \<Rightarrow> string list \<Rightarrow> thrown + (nat \<times> store)" where
  "prisma_prompt_deleteMany db ids =
     (case dbError db of
        Some e \<Rightarrow> Inl e
      | None \<Rightarrow>
          Inr (length (filter (\<lambda>r. row_id r \<in> set ids) (rows db)),
               db\<lparr>rows := filter (\<lambda>r. row_id r \<notin> set ids) (rows db)\<rparr>))"

text \<open>\<^verbatim>\<open>ServerActionResult<T>\<close> is \<^verbatim>\<open>{success, data?, error?}\<close>.\<close>

record 'a serverActionResult =
  success :: bool
  sa_data :: "'a option"
  sa_error :: "string option"

text \<open>
  \<^verbatim>\<open>deletePromptHistoryItem\<close> of actions.ts and \<^verbatim>\<open>deleteMultipleHistoryItems\<close> of
  history.ts, each with the store it leaves behind. (\<^verbatim>\<open>revalidatePath\<close> only drops a
  page cache and does not touch the store.)
\<close>

definition deletePromptHistoryItem :: "store \<Rightarrow> string \<Rightarrow> unit serverActionResult \<times> store" where
  "deletePromptHistoryItem db i =
     (case prisma_prompt_delete db i of
        Inr db' \<Rightarrow> (\<lparr>success = True, sa_data = None, sa_error = None\<rparr>, db')
      | Inl e \<Rightarrow>
          (\<lparr>success = False, sa_data = None,
            sa_error = Some (''Fehler beim L'' @ [CHR 0xF6] @ ''schen des Eintrags'')\<rparr>, db))"

definition deleteMultipleHistoryItems ::
  "store \<Rightarrow> string list \<Rightarrow> nat serverActionResult \<times> store" where
  "deleteMultipleHistoryItems db ids =
     (case prisma_prompt_deleteMany db ids of
        Inr (n, db') \<Rightarrow> (\<lparr>success = True, sa_data = Some n, sa_error = None\<rparr>, db')
      | Inl e \<Rightarrow>
          (\<lparr>success = False, sa_data = None,
            sa_error = Some (''Fehler beim L'' @ [CHR 0xF6] @ ''schen der Eintr'' @ [CHR 0xE4] @ ''ge'')\<rparr>,
           db))"

section \<open>route.ts: the streaming route\<close>

text \<open>
  What the route does to the outside, in order: it enqueues an event on the response
  stream, it calls \<^verbatim>\<open>prisma.prompt.create\<close>, it closes the response stream.
\<close>

datatype action = Send streamEvent | DbCreate promptData | Close

datatype response = Response400 string | EventStream "action list"

record request =
  q_session :: "string option"
  q_model1 :: "string option"
  q_model2 :: "string option"
  q_prompt :: "string option"

text \<open>
  The world of one request: the API keys, what the two backends do, and the order in
  which the two slot tasks get their turns. The consumer stays connected, so
  \<^verbatim>\<open>controller.enqueue\<close> and \<^verbatim>\<open>controller.close\<close> do not throw.
\<close>

record world =
  OPENAI_API_KEY :: "string option"
  ANTHROPIC_API_KEY :: "string option"
  stream1 :: backend
  stream2 :: backend
  schedule :: "bool list"

text \<open>
  The two slot tasks share no variable: each has its own locals and only enqueues events.
  Their events reach the response stream in some interleaving that keeps each task's own
  order; the schedule picks it (\<open>True\<close>: the first task's next event), and when the
  schedule runs out the first task goes first.
\<close>

fun interleave :: "bool list \<Rightarrow> 'a list \<Rightarrow> 'a list \<Rightarrow> 'a list" where
  "interleave s [] ys = ys"
| "interleave s (x # xs) [] = x # xs"
| "interleave [] (x # xs) (y # ys) = (x # xs) @ (y # ys)"
| "interleave (True # s) (x # xs) (y # ys) = x # interleave s xs (y # ys)"
| "interleave (False # s) (x # xs) (y # ys) = y # interleave s (x # xs) ys"

definition startEvent :: "string \<Rightarrow> modelKey \<Rightarrow> string \<Rightarrow> streamEvent" where
  "startEvent modelId modelKey sessionId =
     \<lparr>ev_type = start, ev_model = modelKey,
      ev_data = \<lparr>sr_id = sessionId, sr_model = modelId, delta = [],
                 tokens = \<lparr>tu_input = 0, tu_output = 0, tu_total = 0\<rparr>,
                 cost = 0, isComplete = False, sr_error = None\<rparr>\<rparr>"

text \<open>\<^verbatim>\<open>saveStreamResults\<close>: the data it hands to \<^verbatim>\<open>create\<close>, and the store afterwards
  (a rejected \<^verbatim>\<open>create\<close> is logged and swallowed).\<close>

definition streamResultData ::
  "string \<Rightarrow> string \<Rightarrow> string \<Rightarrow> thrown + streamResult \<Rightarrow> thrown + streamResult \<Rightarrow> promptData" where
  "streamResultData prompt model1Id model2Id result1 result2 =
     \<lparr>p_content = prompt, p_model1 = model1Id, p_model2 = model2Id,
      response1 = (case result1 of Inr r \<Rightarrow> Some (res_content r) | Inl e \<Rightarrow> None),
      response2 = (case result2 of Inr r \<Rightarrow> Some (res_content r) | Inl e \<Rightarrow> None),
      cost1 = (case result1 of Inr r \<Rightarrow> Some (res_cost r) | Inl e \<Rightarrow> None),
      cost2 = (case result2 of Inr r \<Rightarrow> Some (res_cost r) | Inl e \<Rightarrow> None)\<rparr>"

definition saveStreamResults ::
  "store \<Rightarrow> string \<Rightarrow> string \<Rightarrow> string \<Rightarrow> thrown + streamResult \<Rightarrow> thrown + streamResult
     \<Rightarrow> action list \<times> store" where
  "saveStreamResults db prompt model1Id model2Id result1 result2 =
     (let d = streamResultData prompt model1Id model2Id result1 result2
      in ([DbCreate d], (case prisma_prompt_create db d of Inr db' \<Rightarrow> db' | Inl e \<Rightarrow> db)))"

text \<open>The outer \<^verbatim>\<open>catch\<close> of the stream's \<^verbatim>\<open>start\<close> callback.\<close>

definition outerCatch :: "string \<Rightarrow> string \<Rightarrow> thrown \<Rightarrow> action list" where
  "outerCatch sessionId model1Id err =
     [Send (errorEvent model1Id model1 sessionId \<lparr>tu_input = 0, tu_output = 0, tu_total = 0\<rparr> 0
              (errorMessage err ''Unbekannter Fehler'')),
      Close]"

text \<open>The \<^verbatim>\<open>start(controller)\<close> callback of the response stream.\<close>

definition streamStart ::
  "world \<Rightarrow> store \<Rightarrow> string \<Rightarrow> string \<Rightarrow> string \<Rightarrow> string \<Rightarrow> action list \<times> store" where
  "streamStart w db sessionId model1Id model2Id prompt =
     (case createModelInstance (OPENAI_API_KEY w) (ANTHROPIC_API_KEY w) model1Id of
        Inl e \<Rightarrow> (outerCatch sessionId model1Id e, db)
      | Inr model1Instance \<Rightarrow>
          (case createModelInstance (OPENAI_API_KEY w) (ANTHROPIC_API_KEY w) model2Id of
             Inl e \<Rightarrow> (outerCatch sessionId model1Id e, db)
           | Inr model2Instance \<Rightarrow>
               (case streamModel (stream1 w) model1Id model1 sessionId of
                  (events1, result1) \<Rightarrow>
                    (case streamModel (stream2 w) model2Id model2 sessionId of
                       (events2, result2) \<Rightarrow>
                         (case saveStreamResults db prompt model1Id model2Id result1 result2 of
                            (saved, db') \<Rightarrow>
                              (map Send ([startEvent model1Id model1 sessionId,
                                          startEvent model2Id model2 sessionId]
                                         @ interleave (schedule w) events1 events2)
                               @ saved @ [Close],
                               db'))))))"

definition GET :: "world \<Rightarrow> store \<Rightarrow> request \<Rightarrow> response \<times> store" where
  "GET w db req =
     (if falsy (q_session req) \<or> falsy (q_model1 req) \<or> falsy (q_model2 req)
         \<or> falsy (q_prompt req)
      then (Response400 ''Fehlende Parameter'', db)
      else
        (let sessionId = the (q_session req); model1Id = the (q_model1 req);
             model2Id = the (q_model2 req); prompt = the (q_prompt req)
         in if getModelConfig model1Id = None \<or> getModelConfig model2Id = None
            then (Response400 (''Ung'' @ [CHR 0xFC] @ ''ltige Model-IDs''), db)
            else (case streamStart w db sessionId model1Id model2Id prompt of
                    (trace, db') \<Rightarrow> (EventStream trace, db'))))"

text \<open>Reading a trace: the events sent, those of one slot, and the terminal ones.\<close>

definition sentEvents :: "action list \<Rightarrow> streamEvent list" where
  "sentEvents trace = concat (map (\<lambda>a. case a of Send e \<Rightarrow> [e] | _ \<Rightarrow> []) trace)"

definition slotEvents :: "modelKey \<Rightarrow> action list \<Rightarrow> streamEvent list" where
  "slotEvents k trace = filter (\<lambda>e. ev_model e = k) (sentEvents trace)"

definition isTerminal :: "streamEvent \<Rightarrow> bool" where
  "isTerminal e = (ev_type e = complete' \<or> ev_type e = error)"

definition slotTerminated :: "modelKey \<Rightarrow> action list \<Rightarrow> bool" where
  "slotTerminated k trace = list_ex isTerminal (slotEvents k trace)"

definition dbCreates :: "action list \<Rightarrow> promptData list" where
  "dbCreates trace = concat (map (\<lambda>a. case a of DbCreate d \<Rightarrow> [d] | _ \<Rightarrow> []) trace)"

text \<open>
  One start event, then token events only, then one terminal event, and nothing after it.
\<close>

definition slotSequence :: "streamEvent list \<Rightarrow> bool" where
  "slotSequence es =
     (case es of
        [] \<Rightarrow> False
      | e # rest \<Rightarrow>
          ev_type e = start \<and> rest \<noteq> [] \<and>
          list_all (\<lambda>t. ev_type t = token) (butlast rest) \<and> isTerminal (last rest))"

text \<open>Both \<^verbatim>\<open>createModelInstance\<close> calls of the request return an instance.\<close>

definition instancesCreated :: "world \<Rightarrow> request \<Rightarrow> bool" where
  "instancesCreated w req =
     (\<not> isl (createModelInstance (OPENAI_API_KEY w) (ANTHROPIC_API_KEY w) (the (q_model1 req))) \<and>
      \<not> isl (createModelInstance (OPENAI_API_KEY w) (ANTHROPIC_API_KEY w) (the (q_model2 req))))"

definition traceOf :: "response \<Rightarrow> action list" where
  "traceOf r = (case r of EventStream t \<Rightarrow> t | Response400 m \<Rightarrow> [])"

definition backendFails :: "backend \<Rightarrow> bool" where
  "backendFails b = (case b of FailsToStart e \<Rightarrow> True | Yields chunks fin \<Rightarrow> fin \<noteq> None)"

section \<open>streaming.ts: the client's reducer\<close>

text \<open>
  \<^verbatim>\<open>StreamState\<close> has one sub-state per slot (fields \<^verbatim>\<open>content, isStreaming, tokens,
  cost, error\<close>) and two derived fields.
\<close>

record slotState =
  content :: string
  isStreaming :: bool
  slot_tokens :: tokenUsage
  slot_cost :: number
  slot_error :: "string option"

record streamState =
  st_model1 :: slotState
  st_model2 :: slotState
  totalCost :: number
  isAnyStreaming :: bool

definition createInitialStreamState :: streamState where
  "createInitialStreamState =
     \<lparr>st_model1 = \<lparr>content = [], isStreaming = False,
                    slot_tokens = \<lparr>tu_input = 0, tu_output = 0, tu_total = 0\<rparr>,
                    slot_cost = 0, slot_error = None\<rparr>,
      st_model2 = \<lparr>content = [], isStreaming = False,
                    slot_tokens = \<lparr>tu_input = 0, tu_output = 0, tu_total = 0\<rparr>,
                    slot_cost = 0, slot_error = None\<rparr>,
      totalCost = 0, isAnyStreaming = False\<rparr>"

text \<open>\<^verbatim>\<open>newState[modelKey]\<close>, read and written, for the two slot keys.\<close>

definition getSlot :: "modelKey \<Rightarrow> streamState \<Rightarrow> slotState" where
  "getSlot k s = (if k = model1 then st_model1 s else st_model2 s)"

definition setSlot :: "modelKey \<Rightarrow> slotState \<Rightarrow> streamState \<Rightarrow> streamState" where
  "setSlot k x s = (if k = model1 then s\<lparr>st_model1 := x\<rparr> else s\<lparr>st_model2 := x\<rparr>)"

text \<open>
  The event's \<^verbatim>\<open>tokens\<close> object is always there, so \<^verbatim>\<open>event.data.tokens || {...}\<close> is
  the object itself; \<^verbatim>\<open>event.data.cost || 0\<close> is the cost (0 for 0) and
  \<^verbatim>\<open>event.data.delta || ''\<close> is the delta.
\<close>

definition updateStreamState :: "streamState \<Rightarrow> streamEvent \<Rightarrow> streamState" where
  "updateStreamState state event =
     (let modelKey = ev_model event
      in if modelKey = system then state
         else
           (let old = getSlot modelKey state;
                newState =
                  (case ev_type event of
                     start \<Rightarrow>
                       setSlot modelKey
                         (old\<lparr>isStreaming := True, slot_error := None, content := []\<rparr>) state
                   | token \<Rightarrow>
                       setSlot modelKey
                         (old\<lparr>content := content old @ delta (ev_data event),
                              slot_tokens := tokens (ev_data event),
                              slot_cost := (if cost (ev_data event) = 0 then 0
                                            else cost (ev_data event))\<rparr>) state
                   | complete' \<Rightarrow>
                       setSlot modelKey
                         (old\<lparr>isStreaming := False,
                              slot_tokens := tokens (ev_data event),
                              slot_cost := (if cost (ev_data event) = 0 then 0
                                            else cost (ev_data event))\<rparr>) state
                   | error \<Rightarrow>
                       setSlot modelKey
                         (old\<lparr>isStreaming := False,
                              slot_error :=
                                Some (or_string (sr_error (ev_data event))
                                        ''Unbekannter Fehler'')\<rparr>) state)
            in newState\<lparr>isAnyStreaming :=
                           isStreaming (st_model1 newState) \<or> isStreaming (st_model2 newState),
                         totalCost :=
                           fl (slot_cost (st_model1 newState)
                               + slot_cost (st_model2 newState))\<rparr>))"

section \<open>Concrete requests\<close>

text \<open>
  The request of the spec's scenarios, an empty store, and three worlds: slot 1 streams
  \<open>Hel\<close>, \<open>lo\<close> and completes while slot 2's backend fails to start; slot 1's backend
  throws after one chunk while slot 2 completes; and a world without the OpenAI key.
\<close>

definition textChunk :: "string \<Rightarrow> chunk" where
  "textChunk s = \<lparr>chunk_content = Some s, chunk_text = None\<rparr>"

definition demoRequest :: request where
  "demoRequest = \<lparr>q_session = Some ''s1'', q_model1 = Some ''gpt-4o-mini'',
                   q_model2 = Some ''claude-3-5-haiku-20241022'', q_prompt = Some ''Say hi''\<rparr>"

definition demoStore :: store where
  "demoStore = \<lparr>rows = [], dbError = None, newId = ''row1'', now = 0\<rparr>"

definition slot2FailsWorld :: world where
  "slot2FailsWorld =
     \<lparr>OPENAI_API_KEY = Some ''sk-1'', ANTHROPIC_API_KEY = Some ''sk-2'',
      stream1 = Yields [textChunk ''Hel'', textChunk ''lo''] None,
      stream2 = FailsToStart (JsError ''overloaded''),
      schedule = [False, True]\<rparr>"

definition slot1FailsWorld :: world where
  "slot1FailsWorld =
     \<lparr>OPENAI_API_KEY = Some ''sk-1'', ANTHROPIC_API_KEY = Some ''sk-2'',
      stream1 = Yields [textChunk ''Hi''] (Some (JsError ''socket hang up'')),
      stream2 = Yields [textChunk ''Hello''] None,
      schedule = [True, False, True]\<rparr>"

definition noKeyWorld :: world where
  "noKeyWorld =
     \<lparr>OPENAI_API_KEY = None, ANTHROPIC_API_KEY = Some ''sk-2'',
      stream1 = Yields [textChunk ''Hi''] None,
      stream2 = Yields [textChunk ''Hello''] None,
      schedule = []\<rparr>"

definition vars :: "string \<Rightarrow> number \<Rightarrow> streamVars" where
  "vars s n = \<lparr>fullContent = s, tokenCount = n, inputTokens = 0, outputTokens = n\<rparr>"

definition zeroUsage :: tokenUsage where
  "zeroUsage = \<lparr>tu_input = 0, tu_output = 0, tu_total = 0\<rparr>"

definition longChunkWorld :: world where
  "longChunkWorld =
     \<lparr>OPENAI_API_KEY = Some ''sk-1'', ANTHROPIC_API_KEY = Some ''sk-2'',
      stream1 = Yields [textChunk ''Hello there, how are you''] None,
      stream2 = Yields [textChunk []] None,
      schedule = []\<rparr>"

definition oneRowStore :: store where
  "oneRowStore =
     \<lparr>rows = [\<lparr>row_id = ''row1'',
               row_data = \<lparr>p_content = ''Say hi'', p_model1 = ''gpt-4o-mini'',
                            p_model2 = ''claude-3-5-haiku-20241022'',
                            response1 = Some ''Hello'', response2 = None,
                            cost1 = Some (1 / 10 ^ 6), cost2 = None\<rparr>,
               createdAt = 0\<rparr>],
      dbError = None, newId = ''row2'', now = 1\<rparr>"

definition deleteFailure :: string where
  "deleteFailure = ''Fehler beim L'' @ [CHR 0xF6] @ ''schen des Eintrags''"

definition busyState :: streamState where
  "busyState =
     \<lparr>st_model1 = \<lparr>content = ''Hel'', isStreaming = True,
                    slot_tokens = \<lparr>tu_input = 0, tu_output = 1, tu_total = 1\<rparr>,
                    slot_cost = fl (1 / 10 ^ 6), slot_error = None\<rparr>,
      st_model2 = \<lparr>content = ''Hi'', isStreaming = True,
                    slot_tokens = \<lparr>tu_input = 0, tu_output = 1, tu_total = 1\<rparr>,
                    slot_cost = fl (4 / 10 ^ 6), slot_error = None\<rparr>,
      totalCost = fl (fl (1 / 10 ^ 6) + fl (4 / 10 ^ 6)), isAnyStreaming = True\<rparr>"

text \<open>Successive values that each exceed the one before by one, starting above \<open>n\<close>.\<close>

fun countsUp :: "number \<Rightarrow> number list \<Rightarrow> bool" where
  "countsUp n [] = True"
| "countsUp n (x # xs) = (x = n + 1 \<and> countsUp (n + 1) xs)"

section \<open>Verified properties\<close>

subsection \<open>Rounding to binary64\<close>

text \<open>
  \<open>fl\<close> is monotone, keeps the sign and commutes with negation; on a numeral it is
  computed by the simplifier with the equations \<open>fl_eval\<close>.
\<close>

lemma pow2_eq: "pow2 e = 2 powi e"
  by (simp add: pow2_def power_int_def field_simps)

lemma pow2_pos: "0 < pow2 e"
  by (simp add: pow2_eq)

lemma pow2_Suc: "pow2 (e + 1) = 2 * pow2 e"
  by (simp add: pow2_eq power_int_add)

lemma pow2_mono: "a \<le> b \<Longrightarrow> pow2 a \<le> pow2 b"
  by (simp add: pow2_eq power_int_increasing)

lemma pow2_add: "pow2 (a + b) = pow2 a * pow2 b"
  by (simp add: pow2_eq power_int_add)

lemma searchUp_unfold:
  "searchUp n e a = (if n = 0 then e else if pow2 (e + 1) \<le> a then searchUp (n - 1) (e + 1) a else e)"
  by (cases n) simp_all

lemma searchDown_unfold:
  "searchDown n e a = (if n = 0 then e else if a < pow2 e then searchDown (n - 1) (e - 1) a else e)"
  by (cases n) simp_all

lemmas fl_eval = fl_def ulp_def binade_def roundEven_def pow2_def Let_def
  searchUp_unfold searchDown_unfold


lemma searchUp_spec:
  "pow2 e \<le> a \<Longrightarrow>
   e \<le> searchUp n e a \<and> searchUp n e a \<le> e + int n \<and> pow2 (searchUp n e a) \<le> a \<and>
   (searchUp n e a < e + int n \<longrightarrow> a < pow2 (searchUp n e a + 1))"
proof (induction n arbitrary: e)
  case 0
  then show ?case by simp
next
  case (Suc n)
  show ?case
  proof (cases "pow2 (e + 1) \<le> a")
    case True
    from Suc.IH [OF True] show ?thesis using True by auto
  next
    case False
    with Suc.prems show ?thesis by auto
  qed
qed

lemma searchDown_spec:
  "a < pow2 (e + 1) \<Longrightarrow>
   e - int n \<le> searchDown n e a \<and> searchDown n e a \<le> e \<and> a < pow2 (searchDown n e a + 1) \<and>
   (e - int n < searchDown n e a \<longrightarrow> pow2 (searchDown n e a) \<le> a)"
proof (induction n arbitrary: e)
  case 0
  then show ?case by simp
next
  case (Suc n)
  show ?case
  proof (cases "a < pow2 e")
    case True
    then have "a < pow2 (e - 1 + 1)" by simp
    from Suc.IH [OF this] show ?thesis using True by auto
  next
    case False
    with Suc.prems show ?thesis by auto
  qed
qed

lemma binade_range: "- 1022 \<le> binade x \<and> binade x \<le> 1023"
proof (cases "1 \<le> \<bar>x\<bar>")
  case True
  then have "pow2 0 \<le> \<bar>x\<bar>" by (simp add: pow2_def)
  from searchUp_spec [OF this, of 1023] True show ?thesis by (simp add: binade_def)
next
  case False
  then have "\<bar>x\<bar> < pow2 (0 + 1)" by (simp add: pow2_def)
  from searchDown_spec [OF this, of 1022] False show ?thesis by (simp add: binade_def)
qed

lemma binade_upper: "binade x < 1023 \<Longrightarrow> \<bar>x\<bar> < pow2 (binade x + 1)"
proof (cases "1 \<le> \<bar>x\<bar>")
  case True
  assume "binade x < 1023"
  from True have "pow2 0 \<le> \<bar>x\<bar>" by (simp add: pow2_def)
  from searchUp_spec [OF this, of 1023] True \<open>binade x < 1023\<close> show ?thesis
    by (simp add: binade_def)
next
  case False
  then have "\<bar>x\<bar> < pow2 (0 + 1)" by (simp add: pow2_def)
  from searchDown_spec [OF this, of 1022] False show ?thesis by (simp add: binade_def)
qed

lemma binade_lower: "- 1022 < binade x \<Longrightarrow> pow2 (binade x) \<le> \<bar>x\<bar>"
proof (cases "1 \<le> \<bar>x\<bar>")
  case True
  then have "pow2 0 \<le> \<bar>x\<bar>" by (simp add: pow2_def)
  from searchUp_spec [OF this, of 1023] True show ?thesis by (simp add: binade_def)
next
  case False
  assume "- 1022 < binade x"
  from False have "\<bar>x\<bar> < pow2 (0 + 1)" by (simp add: pow2_def)
  from searchDown_spec [OF this, of 1022] False \<open>- 1022 < binade x\<close> show ?thesis
    by (simp add: binade_def)
qed

lemma binade_abs: "binade (- x) = binade x"
  by (simp add: binade_def)

lemma binade_mono: "\<bar>x\<bar> \<le> \<bar>y\<bar> \<Longrightarrow> binade x \<le> binade y"
proof (rule ccontr)
  assume le: "\<bar>x\<bar> \<le> \<bar>y\<bar>" and "\<not> binade x \<le> binade y"
  then have lt: "binade y < binade x" by simp
  with binade_range [of x] have "binade y < 1023" by linarith
  then have "\<bar>y\<bar> < pow2 (binade y + 1)" by (rule binade_upper)
  also from lt have "pow2 (binade y + 1) \<le> pow2 (binade x)" by (intro pow2_mono) simp
  also from lt binade_range [of y] have "- 1022 < binade x" by linarith
  then have "pow2 (binade x) \<le> \<bar>x\<bar>" by (rule binade_lower)
  finally show False using le by simp
qed

lemma roundEven_of_int: "roundEven (of_int n) = n"
  by (simp add: roundEven_def)

lemma roundEven_bounds: "\<lfloor>y\<rfloor> \<le> roundEven y \<and> roundEven y \<le> \<lfloor>y\<rfloor> + 1"
  by (simp add: roundEven_def Let_def)

lemma roundEven_mono: "y \<le> z \<Longrightarrow> roundEven y \<le> roundEven z"
proof -
  assume yz: "y \<le> z"
  then have "\<lfloor>y\<rfloor> \<le> \<lfloor>z\<rfloor>" by (rule floor_mono)
  then consider "\<lfloor>y\<rfloor> < \<lfloor>z\<rfloor>" | "\<lfloor>y\<rfloor> = \<lfloor>z\<rfloor>" by linarith
  then show ?thesis
  proof cases
    case 1
    with roundEven_bounds [of y] roundEven_bounds [of z] show ?thesis by linarith
  next
    case 2
    with yz show ?thesis by (auto simp: roundEven_def Let_def)
  qed
qed

lemma roundEven_ge: "of_int n \<le> y \<Longrightarrow> n \<le> roundEven y"
  using roundEven_mono [of "of_int n" y] by (simp add: roundEven_of_int)

lemma roundEven_le: "y \<le> of_int n \<Longrightarrow> roundEven y \<le> n"
  using roundEven_mono [of y "of_int n"] by (simp add: roundEven_of_int)

lemma roundEven_minus: "roundEven (- y) = - roundEven y"
proof (cases "y = of_int \<lfloor>y\<rfloor>")
  case True
  then obtain n where "y = of_int n" ..
  then have "- y = of_int (- n)" by simp
  then show ?thesis unfolding \<open>y = of_int n\<close>
    by (metis roundEven_of_int of_int_minus)
next
  case False
  then have fl: "\<lfloor>- y\<rfloor> = - \<lfloor>y\<rfloor> - 1"
    by (metis add.inverse_inverse ceiling_def floor_of_int le_floor_iff
        ceiling_altdef diff_minus_eq_add minus_diff_eq of_int_floor_cancel uminus_add_conv_diff)
  then show ?thesis
    by (auto simp: roundEven_def Let_def)
qed

lemma ulp_pos: "0 < ulp x"
  by (simp add: ulp_def pow2_pos)

lemma ulp_minus: "ulp (- x) = ulp x"
  by (simp add: ulp_def binade_abs)

lemma fl_minus: "fl (- x) = - fl x"
  by (simp add: fl_def ulp_minus roundEven_minus)

lemma fl_nonneg: "0 \<le> x \<Longrightarrow> 0 \<le> fl x"
proof -
  assume "0 \<le> x"
  with ulp_pos [of x] have "of_int 0 \<le> x / ulp x" by simp
  then have "0 \<le> roundEven (x / ulp x)" by (rule roundEven_ge)
  with ulp_pos [of x] show ?thesis by (simp add: fl_def)
qed

lemma pow2_53: "pow2 (e + 1) = 2 ^ 53 * pow2 (e - 52)"
proof -
  have "e + 1 = 53 + (e - 52)" by simp
  then have "pow2 (e + 1) = pow2 (53 + (e - 52))" by (rule arg_cong)
  also have "\<dots> = pow2 53 * pow2 (e - 52)" by (rule pow2_add)
  finally show ?thesis by (simp add: pow2_def)
qed

lemma pow2_52: "pow2 e = 2 ^ 52 * pow2 (e - 52)"
proof -
  have "e = 52 + (e - 52)" by simp
  then have "pow2 e = pow2 (52 + (e - 52))" by (rule arg_cong)
  also have "\<dots> = pow2 52 * pow2 (e - 52)" by (rule pow2_add)
  finally show ?thesis by (simp add: pow2_def)
qed

lemma fl_le_next_binade:
  assumes "0 < x" and "binade x < 1023"
  shows "fl x \<le> pow2 (binade x + 1)"
proof -
  from binade_upper [OF assms(2)] assms(1) have "x \<le> pow2 (binade x + 1)" by simp
  with pow2_53 [of "binade x"] have "x \<le> 2 ^ 53 * ulp x" by (simp add: ulp_def)
  with ulp_pos [of x] have "x / ulp x \<le> of_int (2 ^ 53)"
    by (simp add: field_simps)
  then have "roundEven (x / ulp x) \<le> 2 ^ 53" by (rule roundEven_le)
  then have "of_int (roundEven (x / ulp x)) \<le> (2 ^ 53 :: real)"
    by (metis of_int_le_iff of_int_numeral of_int_power)
  with ulp_pos [of x] have "of_int (roundEven (x / ulp x)) * ulp x \<le> 2 ^ 53 * ulp x"
    by (intro mult_right_mono) simp_all
  with assms(1) show ?thesis by (simp add: fl_def pow2_53 [of "binade x"] ulp_def)
qed

lemma fl_ge_binade:
  assumes "0 < x" and "- 1022 < binade x"
  shows "pow2 (binade x) \<le> fl x"
proof -
  from binade_lower [OF assms(2)] assms(1) have "pow2 (binade x) \<le> x" by simp
  with pow2_52 [of "binade x"] have "2 ^ 52 * ulp x \<le> x" by (simp add: ulp_def)
  with ulp_pos [of x] have "of_int (2 ^ 52) \<le> x / ulp x"
    by (simp add: field_simps)
  then have "2 ^ 52 \<le> roundEven (x / ulp x)" by (rule roundEven_ge)
  then have "(2 ^ 52 :: real) \<le> of_int (roundEven (x / ulp x))"
    by (metis of_int_le_iff of_int_numeral of_int_power)
  with ulp_pos [of x] have "2 ^ 52 * ulp x \<le> of_int (roundEven (x / ulp x)) * ulp x"
    by (intro mult_right_mono) simp_all
  with assms(1) show ?thesis by (simp add: fl_def pow2_52 [of "binade x"] ulp_def)
qed

lemma fl_mono_pos:
  assumes "0 < x" and "x \<le> y"
  shows "fl x \<le> fl y"
proof -
  from assms have ypos: "0 < y" by simp
  from assms have "binade x \<le> binade y" by (intro binade_mono) simp
  then consider "binade x = binade y" | "binade x < binade y" by linarith
  then show ?thesis
  proof cases
    case 1
    then have u: "ulp x = ulp y" by (simp add: ulp_def)
    from assms(2) ulp_pos [of y] have "x / ulp y \<le> y / ulp y"
      by (simp add: divide_right_mono)
    then have "roundEven (x / ulp y) \<le> roundEven (y / ulp y)" by (rule roundEven_mono)
    then have "(of_int (roundEven (x / ulp y)) :: real) \<le> of_int (roundEven (y / ulp y))"
      by simp
    with ulp_pos [of y]
    have "of_int (roundEven (x / ulp y)) * ulp y \<le> of_int (roundEven (y / ulp y)) * ulp y"
      by (intro mult_right_mono) simp_all
    with assms(1) ypos u show ?thesis by (simp add: fl_def)
  next
    case 2
    with binade_range [of y] have "binade x < 1023" by linarith
    from fl_le_next_binade [OF assms(1) this] have "fl x \<le> pow2 (binade x + 1)" .
    also from 2 have "pow2 (binade x + 1) \<le> pow2 (binade y)" by (intro pow2_mono) simp
    also from 2 binade_range [of x] have "- 1022 < binade y" by linarith
    from fl_ge_binade [OF ypos this] have "pow2 (binade y) \<le> fl y" .
    finally show ?thesis .
  qed
qed

lemma fl_zero: "fl 0 = 0"
  by (simp add: fl_def)

lemma fl_mono: assumes "x \<le> y" shows "fl x \<le> fl y"
proof -
  consider "0 < x" | "x \<le> 0" "0 \<le> y" | "y < 0" by linarith
  then show ?thesis
  proof cases
    case 1
    from fl_mono_pos [OF 1 assms] show ?thesis .
  next
    case 2
    from 2(1) have "0 \<le> - x" by simp
    from fl_nonneg [OF this] have "fl x \<le> 0" by (simp add: fl_minus)
    with fl_nonneg [OF 2(2)] show ?thesis by linarith
  next
    case 3
    with assms have "0 < - y" and "- y \<le> - x" by simp_all
    from fl_mono_pos [OF this] show ?thesis by (simp add: fl_minus)
  qed
qed

subsection \<open>The accountant\<close>

lemma round_half_near: "\<bar>of_int \<lfloor>y + 1 / 2\<rfloor> - y\<bar> \<le> (1 / 2 :: real)"
  by linarith

lemma toFixed6_rounded: "rounded6 x (toFixed6 x)"
proof (cases "x < 0")
  case True
  let ?m = "\<lfloor>(- x) * 10 ^ 6 + 1 / 2\<rfloor>"
  have "\<bar>of_int ?m - (- x) * 10 ^ 6\<bar> \<le> 1 / 2"
    by (rule round_half_near)
  then have near: "\<bar>of_int (- ?m) - x * 10 ^ 6\<bar> \<le> 1 / 2"
    by linarith
  have "- fl (of_int ?m / 10 ^ 6) = fl (of_int (- ?m) / 10 ^ 6)"
    by (simp add: fl_minus [symmetric])
  with True have "toFixed6 x = fl (of_int (- ?m) / 10 ^ 6)"
    by (simp add: toFixed6_def)
  with near show ?thesis unfolding rounded6_def by blast
next
  case False
  let ?m = "\<lfloor>x * 10 ^ 6 + 1 / 2\<rfloor>"
  have near: "\<bar>of_int ?m - x * 10 ^ 6\<bar> \<le> 1 / 2"
    by (rule round_half_near)
  from False have "toFixed6 x = fl (of_int ?m / 10 ^ 6)"
    by (simp add: toFixed6_def)
  with near show ?thesis unfolding rounded6_def by blast
qed

lemma toFixed6_nonneg: "0 \<le> x \<Longrightarrow> 0 \<le> toFixed6 x"
proof -
  assume x: "0 \<le> x"
  then have "(0 :: real) \<le> of_int \<lfloor>x * 10 ^ 6 + 1 / 2\<rfloor> / 10 ^ 6" by simp
  from fl_nonneg [OF this] x show ?thesis by (simp add: toFixed6_def)
qed

lemma toFixed6_nonpos: "x < 0 \<Longrightarrow> toFixed6 x \<le> 0"
proof -
  assume x: "x < 0"
  then have "(0 :: real) \<le> of_int \<lfloor>(- x) * 10 ^ 6 + 1 / 2\<rfloor> / 10 ^ 6" by simp
  from fl_nonneg [OF this] x show ?thesis by (simp add: toFixed6_def)
qed

lemma toFixed6_mono: "x \<le> y \<Longrightarrow> toFixed6 x \<le> toFixed6 y"
proof -
  assume xy: "x \<le> y"
  consider "0 \<le> x" | "x < 0" "0 \<le> y" | "x < 0" "y < 0" by linarith
  then show ?thesis
  proof cases
    case 1
    with xy have "\<lfloor>x * 10 ^ 6 + 1 / 2\<rfloor> \<le> \<lfloor>y * 10 ^ 6 + 1 / 2\<rfloor>"
      by (intro floor_mono) simp
    then have "(of_int \<lfloor>x * 10 ^ 6 + 1 / 2\<rfloor> / 10 ^ 6 :: real)
        \<le> of_int \<lfloor>y * 10 ^ 6 + 1 / 2\<rfloor> / 10 ^ 6"
      by (simp add: divide_right_mono)
    from fl_mono [OF this] 1 xy show ?thesis by (simp add: toFixed6_def)
  next
    case 2
    from toFixed6_nonpos [OF 2(1)] toFixed6_nonneg [OF 2(2)] show ?thesis by linarith
  next
    case 3
    with xy have "\<lfloor>(- y) * 10 ^ 6 + 1 / 2\<rfloor> \<le> \<lfloor>(- x) * 10 ^ 6 + 1 / 2\<rfloor>"
      by (intro floor_mono) simp
    then have "(of_int \<lfloor>(- y) * 10 ^ 6 + 1 / 2\<rfloor> / 10 ^ 6 :: real)
        \<le> of_int \<lfloor>(- x) * 10 ^ 6 + 1 / 2\<rfloor> / 10 ^ 6"
      by (simp add: divide_right_mono)
    from fl_mono [OF this] 3 show ?thesis by (simp add: toFixed6_def)
  qed
qed

lemmas model_table = getModelConfig_def ALL_MODELS_def OPENAI_MODELS_def ANTHROPIC_MODELS_def

lemma find_SomeD: "find P xs = Some x \<Longrightarrow> P x \<and> x \<in> set xs"
  by (induction xs) (auto split: if_splits)

lemma getModelConfig_SomeD:
  "getModelConfig modelId = Some cfg \<Longrightarrow> mc_id cfg = modelId \<and> cfg \<in> set ALL_MODELS"
  unfolding getModelConfig_def by (drule find_SomeD) simp

lemma registered_prices_nonneg:
  assumes "getModelConfig modelId = Some cfg"
  shows "0 \<le> pricing_input (mc_pricing cfg)" and "0 \<le> pricing_output (mc_pricing cfg)"
proof -
  from assms have "cfg \<in> set ALL_MODELS" by (simp add: getModelConfig_SomeD)
  then show "0 \<le> pricing_input (mc_pricing cfg)" and "0 \<le> pricing_output (mc_pricing cfg)"
    by (auto simp: ALL_MODELS_def OPENAI_MODELS_def ANTHROPIC_MODELS_def intro!: fl_nonneg)
qed

lemma pricing_tables_agree:
  assumes "getModelConfig modelId = Some cfg"
  shows "\<exists>table. map_of MODEL_PRICING (mc_provider cfg) = Some table \<and>
           map_of table modelId = Some (mc_pricing cfg)"
proof -
  from assms have m: "cfg \<in> set ALL_MODELS" and i: "modelId = mc_id cfg"
    by (simp_all add: getModelConfig_SomeD)
  from m show ?thesis unfolding i
    by (simp add: ALL_MODELS_def OPENAI_MODELS_def ANTHROPIC_MODELS_def)
       (elim disjE; simp add: MODEL_PRICING_def)
qed

lemma calculateCost_Some:
  "getModelConfig modelId = Some cfg \<Longrightarrow>
   calculateCost u modelId =
     Inr \<lparr>cc_inputTokens = tu_input u, cc_outputTokens = tu_output u,
          cc_inputCost = toFixed6 (fl (fl (tu_input u / 1000) * pricing_input (mc_pricing cfg))),
          cc_outputCost = toFixed6 (fl (fl (tu_output u / 1000) * pricing_output (mc_pricing cfg))),
          cc_totalCost =
            toFixed6 (fl (fl (fl (tu_input u / 1000) * pricing_input (mc_pricing cfg))
                          + fl (fl (tu_output u / 1000) * pricing_output (mc_pricing cfg))))\<rparr>"
  by (simp add: calculateCost_def Let_def)

lemma calculateCost_None:
  "getModelConfig modelId = None \<Longrightarrow> calculateCost u modelId = Inl (unknownModelError modelId)"
  by (simp add: calculateCost_def)

lemma calculateLiveCost_Some:
  "getModelConfig modelId = Some cfg \<Longrightarrow>
   calculateLiveCost i out modelId =
     Inr (toFixed6 (fl (fl (fl (i / 1000) * pricing_input (mc_pricing cfg))
                        + fl (fl (out / 1000) * pricing_output (mc_pricing cfg)))))"
  by (simp add: calculateLiveCost_def calculateCost_Some)

lemma calculateLiveCost_None:
  "getModelConfig modelId = None \<Longrightarrow>
   calculateLiveCost i out modelId = Inl (unknownModelError modelId)"
  by (simp add: calculateLiveCost_def calculateCost_None)

text \<open>
  Claim C6. For every token usage and every model id: when the id has a registered
  model descriptor, \<open>calculateCost\<close> returns a cost calculation whose input cost is the
  binary64 product of input/1000 and the input price, whose output cost is the binary64
  product of output/1000 and the output price and whose total cost is the binary64 sum of
  these two products, each of the three rounded to 6 decimal places, and
  \<open>calculateLiveCost\<close> returns that total; when the id has no registered descriptor, both
  fail with the unknown-model error. The result is a function of the two arguments and
  the constant model table alone.
\<close>

theorem calculateCost_rounds_and_fails:
  "(getModelConfig modelId = None \<longrightarrow>
      calculateCost usage modelId = Inl (unknownModelError modelId) \<and>
      calculateLiveCost i out modelId = Inl (unknownModelError modelId)) \<and>
   (\<forall>cfg. getModelConfig modelId = Some cfg \<longrightarrow>
      (\<exists>c. calculateCost usage modelId = Inr c \<and>
           rounded6 (fl (fl (tu_input usage / 1000) * pricing_input (mc_pricing cfg)))
             (cc_inputCost c) \<and>
           rounded6 (fl (fl (tu_output usage / 1000) * pricing_output (mc_pricing cfg)))
             (cc_outputCost c) \<and>
           rounded6 (fl (fl (fl (tu_input usage / 1000) * pricing_input (mc_pricing cfg))
                         + fl (fl (tu_output usage / 1000) * pricing_output (mc_pricing cfg))))
             (cc_totalCost c) \<and>
           calculateLiveCost (tu_input usage) (tu_output usage) modelId = Inr (cc_totalCost c)))"
  by (simp add: calculateCost_None calculateLiveCost_None calculateCost_Some
      calculateLiveCost_Some toFixed6_rounded)

text \<open>
  Three runs of the binary64 arithmetic, where rounding the exact products would give
  another millionth: 9 input tokens of \<open>gpt-3.5-turbo\<close> cost 0.000013, the live cost of 2
  input and 7 output tokens of \<open>gpt-4o-mini\<close> is 0.000004, and 3 input with 4 output
  tokens of \<open>gpt-3.5-turbo\<close> cost 0.000012.
\<close>

lemma binary64_costs:
  "calculateCost \<lparr>tu_input = 9, tu_output = 0, tu_total = 9\<rparr> ''gpt-3.5-turbo'' =
     Inr \<lparr>cc_inputTokens = 9, cc_outputTokens = 0, cc_inputCost = fl (13 / 10 ^ 6),
          cc_outputCost = 0, cc_totalCost = fl (13 / 10 ^ 6)\<rparr>"
  "calculateLiveCost 2 7 ''gpt-4o-mini'' = Inr (fl (4 / 10 ^ 6))"
  "calculateCost \<lparr>tu_input = 3, tu_output = 4, tu_total = 7\<rparr> ''gpt-3.5-turbo'' =
     Inr \<lparr>cc_inputTokens = 3, cc_outputTokens = 4, cc_inputCost = fl (5 / 10 ^ 6),
          cc_outputCost = fl (8 / 10 ^ 6), cc_totalCost = fl (12 / 10 ^ 6)\<rparr>"
  by (simp_all add: calculateLiveCost_def calculateCost_def model_table toFixed6_def fl_eval)

theorem calculateCost_rounds_and_fails_witness:
  "calculateCost \<lparr>tu_input = 1000, tu_output = 2000, tu_total = 3000\<rparr> ''gpt-5'' =
     Inl (JsError ''Unknown model for cost calculation: gpt-5'') \<and>
   calculateLiveCost 1000 2000 ''gpt-5'' =
     Inl (JsError ''Unknown model for cost calculation: gpt-5'') \<and>
   (\<exists>c. calculateCost \<lparr>tu_input = 3, tu_output = 4, tu_total = 7\<rparr> ''gpt-3.5-turbo'' = Inr c \<and>
        rounded6 (fl (fl (3 / 1000) * fl (15 / 10000))) (cc_inputCost c) \<and>
        rounded6 (fl (fl (4 / 1000) * fl (2 / 1000))) (cc_outputCost c) \<and>
        rounded6 (fl (fl (fl (3 / 1000) * fl (15 / 10000)) + fl (fl (4 / 1000) * fl (2 / 1000))))
          (cc_totalCost c) \<and>
        cc_totalCost c = fl (12 / 10 ^ 6) \<and>
        calculateLiveCost 3 4 ''gpt-3.5-turbo'' = Inr (cc_totalCost c))"
proof -
  have none: "getModelConfig ''gpt-5'' = None"
    by (simp add: model_table)
  let ?cfg = "\<lparr>mc_id = ''gpt-3.5-turbo'', mc_name = ''gpt-3.5-turbo'',
       displayName = ''GPT-3.5 Turbo'', mc_provider = openai,
       mc_pricing = \<lparr>pricing_input = fl (15 / 10000), pricing_output = fl (2 / 1000)\<rparr>,
       maxTokens = 16385, supportsStreaming = True\<rparr>"
  have some: "getModelConfig ''gpt-3.5-turbo'' = Some ?cfg"
    by (simp add: model_table)
  from calculateCost_rounds_and_fails
    [of "''gpt-5''" "\<lparr>tu_input = 1000, tu_output = 2000, tu_total = 3000\<rparr>" 1000 2000]
    none
  have a: "calculateCost \<lparr>tu_input = 1000, tu_output = 2000, tu_total = 3000\<rparr> ''gpt-5'' =
     Inl (JsError ''Unknown model for cost calculation: gpt-5'') \<and>
   calculateLiveCost 1000 2000 ''gpt-5'' =
     Inl (JsError ''Unknown model for cost calculation: gpt-5'')"
    by (simp add: unknownModelError_def)
  from calculateCost_rounds_and_fails
    [of "''gpt-3.5-turbo''" "\<lparr>tu_input = 3, tu_output = 4, tu_total = 7\<rparr>" 0 0]
    some
  obtain c where
    c: "calculateCost \<lparr>tu_input = 3, tu_output = 4, tu_total = 7\<rparr> ''gpt-3.5-turbo'' = Inr c"
       "rounded6 (fl (fl (3 / 1000) * fl (15 / 10000))) (cc_inputCost c)"
       "rounded6 (fl (fl (4 / 1000) * fl (2 / 1000))) (cc_outputCost c)"
       "rounded6 (fl (fl (fl (3 / 1000) * fl (15 / 10000)) + fl (fl (4 / 1000) * fl (2 / 1000))))
          (cc_totalCost c)"
       "calculateLiveCost 3 4 ''gpt-3.5-turbo'' = Inr (cc_totalCost c)"
    by auto
  from c(1) binary64_costs(3) have "cc_totalCost c = fl (12 / 10 ^ 6)"
    by auto
  with a c show ?thesis by blast
qed

text \<open>
  Claim C7. For every registered model id and fixed input token count, the total cost
  returned by \<open>calculateCost\<close> does not decrease when the output token count grows,
  the binary64 roundings and the rounding to 6 decimal places included.
\<close>

theorem calculateCost_output_mono:
  assumes "getModelConfig modelId = Some cfg" and "out \<le> out'"
  shows "\<exists>c c'. calculateCost \<lparr>tu_input = inp, tu_output = out, tu_total = t\<rparr> modelId = Inr c \<and>
     calculateCost \<lparr>tu_input = inp, tu_output = out', tu_total = t'\<rparr> modelId = Inr c' \<and>
     cc_totalCost c \<le> cc_totalCost c'"
proof -
  let ?pin = "pricing_input (mc_pricing cfg)" and ?pout = "pricing_output (mc_pricing cfg)"
  from assms(1) have p: "0 \<le> ?pout"
    by (rule registered_prices_nonneg)
  from assms(2) have "out / 1000 \<le> out' / 1000" by simp
  then have "fl (out / 1000) \<le> fl (out' / 1000)" by (rule fl_mono)
  from this p have "fl (out / 1000) * ?pout \<le> fl (out' / 1000) * ?pout"
    by (rule mult_right_mono)
  then have "fl (fl (out / 1000) * ?pout) \<le> fl (fl (out' / 1000) * ?pout)"
    by (rule fl_mono)
  then have "fl (fl (inp / 1000) * ?pin) + fl (fl (out / 1000) * ?pout)
      \<le> fl (fl (inp / 1000) * ?pin) + fl (fl (out' / 1000) * ?pout)"
    by simp
  then have "fl (fl (fl (inp / 1000) * ?pin) + fl (fl (out / 1000) * ?pout))
      \<le> fl (fl (fl (inp / 1000) * ?pin) + fl (fl (out' / 1000) * ?pout))"
    by (rule fl_mono)
  then have "toFixed6 (fl (fl (fl (inp / 1000) * ?pin) + fl (fl (out / 1000) * ?pout)))
      \<le> toFixed6 (fl (fl (fl (inp / 1000) * ?pin) + fl (fl (out' / 1000) * ?pout)))"
    by (rule toFixed6_mono)
  with assms(1) show ?thesis by (simp add: calculateCost_Some)
qed

theorem calculateCost_output_mono_witness:
  "(3::real) \<le> 4 \<and>
   (\<exists>c c'. calculateCost \<lparr>tu_input = 3, tu_output = 3, tu_total = 6\<rparr> ''gpt-3.5-turbo'' = Inr c \<and>
      calculateCost \<lparr>tu_input = 3, tu_output = 4, tu_total = 7\<rparr> ''gpt-3.5-turbo'' = Inr c' \<and>
      cc_totalCost c \<le> cc_totalCost c' \<and> cc_totalCost c' = fl (12 / 10 ^ 6))"
proof -
  let ?cfg = "\<lparr>mc_id = ''gpt-3.5-turbo'', mc_name = ''gpt-3.5-turbo'',
       displayName = ''GPT-3.5 Turbo'', mc_provider = openai,
       mc_pricing = \<lparr>pricing_input = fl (15 / 10000), pricing_output = fl (2 / 1000)\<rparr>,
       maxTokens = 16385, supportsStreaming = True\<rparr>"
  have some: "getModelConfig ''gpt-3.5-turbo'' = Some ?cfg"
    by (simp add: model_table)
  have le: "(3::real) \<le> 4" by simp
  from calculateCost_output_mono [OF some le, of 3 6 7] obtain c c' where
    "calculateCost \<lparr>tu_input = 3, tu_output = 3, tu_total = 6\<rparr> ''gpt-3.5-turbo'' = Inr c"
    "calculateCost \<lparr>tu_input = 3, tu_output = 4, tu_total = 7\<rparr> ''gpt-3.5-turbo'' = Inr c'"
    "cc_totalCost c \<le> cc_totalCost c'"
    by blast
  moreover from this(2) binary64_costs(3) have "cc_totalCost c' = fl (12 / 10 ^ 6)"
    by auto
  ultimately show ?thesis using le by blast
qed

lemma trim_Nil: "trim [] = []"
  by (simp add: trim_def)

lemma trim_whitespace:
  assumes "list_all isWhiteSpace text"
  shows "trim text = []"
proof -
  from assms have "dropWhile isWhiteSpace text = []"
    by (induction "text") auto
  then show ?thesis by (simp only: trim_def rev.simps dropWhile.simps)
qed

lemma countTokens_formula:
  "countTokens text modelId = \<lceil>real (length (trim text)) / charsPerToken modelId\<rceil>"
proof (cases "text = []")
  case True
  then show ?thesis by (simp add: countTokens_def trim_Nil)
next
  case False
  then show ?thesis
    by (simp add: countTokens_def countOpenAITokens_def countAnthropicTokens_def
        charsPerToken_def OPENAI_CHARS_PER_TOKEN_def ANTHROPIC_CHARS_PER_TOKEN_def
        DEFAULT_CHARS_PER_TOKEN_def Let_def)
qed

lemma charsPerToken_pos: "0 < charsPerToken modelId"
  by (simp add: charsPerToken_def)

text \<open>
  Claim C8. For every text and model id, \<open>countTokens\<close> returns a non-negative whole
  number, returns 0 for an empty or whitespace-only text, has no failing branch, and is
  the trimmed length divided by the provider's characters-per-token constant, rounded up:
  4 for an OpenAI-family id, 3.8 for an Anthropic-family id, and the fallback 4 for any
  other id.
\<close>

theorem countTokens_estimate:
  "0 \<le> countTokens text modelId \<and>
   (list_all isWhiteSpace text \<longrightarrow> countTokens text modelId = 0) \<and>
   countTokens text modelId = \<lceil>real (length (trim text)) / charsPerToken modelId\<rceil> \<and>
   charsPerToken modelId =
     (if startsWith modelId ''gpt-'' \<or> str_includes modelId ''openai''
        then OPENAI_CHARS_PER_TOKEN
      else if startsWith modelId ''claude-'' \<or> str_includes modelId ''anthropic''
        then ANTHROPIC_CHARS_PER_TOKEN
      else DEFAULT_CHARS_PER_TOKEN) \<and>
   OPENAI_CHARS_PER_TOKEN = 4 \<and> ANTHROPIC_CHARS_PER_TOKEN = 38 / 10 \<and>
   DEFAULT_CHARS_PER_TOKEN = 4"
proof -
  have "0 \<le> real (length (trim text)) / charsPerToken modelId"
    using charsPerToken_pos [of modelId] by simp
  then have nonneg: "0 \<le> countTokens text modelId"
    by (simp add: countTokens_formula)
  have ws: "list_all isWhiteSpace text \<longrightarrow> countTokens text modelId = 0"
    by (simp add: countTokens_formula trim_whitespace)
  have cpt: "charsPerToken modelId =
     (if startsWith modelId ''gpt-'' \<or> str_includes modelId ''openai''
        then OPENAI_CHARS_PER_TOKEN
      else if startsWith modelId ''claude-'' \<or> str_includes modelId ''anthropic''
        then ANTHROPIC_CHARS_PER_TOKEN
      else DEFAULT_CHARS_PER_TOKEN)"
    by (simp add: charsPerToken_def OPENAI_CHARS_PER_TOKEN_def
        ANTHROPIC_CHARS_PER_TOKEN_def DEFAULT_CHARS_PER_TOKEN_def)
  have cs: "OPENAI_CHARS_PER_TOKEN = 4 \<and> ANTHROPIC_CHARS_PER_TOKEN = 38 / 10 \<and>
      DEFAULT_CHARS_PER_TOKEN = 4"
    by (simp add: OPENAI_CHARS_PER_TOKEN_def ANTHROPIC_CHARS_PER_TOKEN_def
        DEFAULT_CHARS_PER_TOKEN_def)
  from nonneg ws countTokens_formula [of "text" modelId] cpt cs show ?thesis
    by blast
qed

theorem countTokens_estimate_witness:
  "list_all isWhiteSpace [CHR '' '', CHR 0x09, CHR '' ''] \<and>
   countTokens [CHR '' '', CHR 0x09, CHR '' ''] ''claude-3-opus-20240229'' = 0 \<and>
   charsPerToken ''claude-3-opus-20240229'' = 38 / 10"
proof -
  have ws: "list_all isWhiteSpace [CHR '' '', CHR 0x09, CHR '' '']"
    by (simp add: isWhiteSpace_def)
  have "\<not> startsWith ''claude-3-opus-20240229'' ''gpt-''"
    by (simp add: startsWith_def)
  moreover have "\<not> str_includes ''claude-3-opus-20240229'' ''openai''"
    by (simp add: startsWith_def)
  moreover have "startsWith ''claude-3-opus-20240229'' ''claude-''"
    by (simp add: startsWith_def)
  ultimately show ?thesis
    using countTokens_estimate [of "[CHR '' '', CHR 0x09, CHR '' '']" "''claude-3-opus-20240229''"] ws
    by (simp add: ANTHROPIC_CHARS_PER_TOKEN_def)
qed

subsection \<open>The streaming route\<close>


lemma interleave_filter_left:
  "list_all P xs \<Longrightarrow> list_all (\<lambda>y. \<not> P y) ys \<Longrightarrow> filter P (interleave s xs ys) = xs"
  by (induction s xs ys rule: interleave.induct) (auto simp: list_all_iff)

lemma interleave_filter_right:
  "list_all (\<lambda>x. \<not> P x) xs \<Longrightarrow> list_all P ys \<Longrightarrow> filter P (interleave s xs ys) = ys"
  by (induction s xs ys rule: interleave.induct) (auto simp: list_all_iff)

lemma set_interleave: "set (interleave s xs ys) = set xs \<union> set ys"
  by (induction s xs ys rule: interleave.induct) auto

lemma append_in_shuffles: "xs @ ys \<in> shuffles xs ys"
  by (induction xs) (auto intro: Cons_in_shuffles_leftI)

lemma interleave_shuffles: "interleave s xs ys \<in> shuffles xs ys"
proof (induction s xs ys rule: interleave.induct)
  case (3 x xs y ys)
  show ?case using append_in_shuffles [of "x # xs" "y # ys"] by simp
qed auto

lemma shuffles_interleave: "zs \<in> shuffles xs ys \<Longrightarrow> \<exists>s. zs = interleave s xs ys"
proof (induction xs ys arbitrary: zs rule: shuffles.induct)
  case (1 ys)
  then show ?case by (auto intro: exI [of _ "[]"])
next
  case (2 xs)
  then show ?case by (cases xs) (auto intro: exI [of _ "[]"])
next
  case (3 x xs y ys)
  from 3(3) consider zs' where "zs = x # zs'" "zs' \<in> shuffles xs (y # ys)"
    | zs' where "zs = y # zs'" "zs' \<in> shuffles (x # xs) ys"
    by (auto simp: shuffles.simps)
  then show ?case
  proof cases
    case 1
    from 3(1) [OF 1(2)] obtain s where "zs' = interleave s xs (y # ys)" by blast
    with 1 have "zs = interleave (True # s) (x # xs) (y # ys)" by simp
    then show ?thesis by blast
  next
    case 2
    from 3(2) [OF 2(2)] obtain s where "zs' = interleave s (x # xs) ys" by blast
    with 2 have "zs = interleave (False # s) (x # xs) (y # ys)" by simp
    then show ?thesis by blast
  qed
qed

lemma onChunk_known:
  assumes "getModelConfig modelId = Some cfg"
  shows "onChunk modelId k sid c v =
     (if deltaOf c \<noteq> [] then
        (None,
         v\<lparr>fullContent := fullContent v @ deltaOf c, tokenCount := tokenCount v + 1,
           outputTokens := outputTokens v + 1\<rparr>,
         [tokenEvent modelId k sid (deltaOf c)
            (v\<lparr>fullContent := fullContent v @ deltaOf c, tokenCount := tokenCount v + 1,
               outputTokens := outputTokens v + 1\<rparr>)
            (projr (calculateLiveCost (inputTokens v) (outputTokens v + 1) modelId))])
      else (None, v, []))"
  using calculateLiveCost_Some [OF assms, of "inputTokens v" "outputTokens v + 1"]
  by (simp add: onChunk_def Let_def)

lemma forAwait_known:
  assumes "getModelConfig modelId = Some cfg"
  shows "\<exists>v' sent. forAwait modelId k sid chunks v = (None, v', sent) \<and>
           list_all (\<lambda>e. ev_type e = token \<and> ev_model e = k) sent \<and>
           inputTokens v' = inputTokens v \<and>
           fullContent v' = fullContent v @ concat (map deltaOf chunks)"
proof (induction chunks arbitrary: v)
  case Nil
  show ?case by simp
next
  case (Cons c rest)
  show ?case
  proof (cases "deltaOf c = []")
    case True
    with Cons [of v] show ?thesis
      by (auto simp: onChunk_known [OF assms])
  next
    case False
    let ?v = "v\<lparr>fullContent := fullContent v @ deltaOf c, tokenCount := tokenCount v + 1,
           outputTokens := outputTokens v + 1\<rparr>"
    from Cons [of ?v] obtain v' sent where
      "forAwait modelId k sid rest ?v = (None, v', sent)"
      "list_all (\<lambda>e. ev_type e = token \<and> ev_model e = k) sent"
      "inputTokens v' = inputTokens ?v"
      "fullContent v' = fullContent ?v @ concat (map deltaOf rest)"
      by blast
    with False show ?thesis
      by (simp add: onChunk_known [OF assms] tokenEvent_def)
  qed
qed

lemma catchBlock_known:
  assumes "getModelConfig modelId = Some cfg"
  shows "catchBlock modelId k sid v err =
     ([errorEvent modelId k sid (usageOf v)
         (projr (calculateLiveCost (inputTokens v) (outputTokens v) modelId))
         (errorMessage err ''Streaming-Fehler'')],
      Inl err)"
  using calculateLiveCost_Some [OF assms, of "inputTokens v" "outputTokens v"]
  by (simp add: catchBlock_def)

lemma afterLoop_known:
  assumes "getModelConfig modelId = Some cfg"
  shows "afterLoop modelId k sid v =
     ([completeEvent modelId k sid (usageOf v)
         (projr (calculateLiveCost (inputTokens v) (outputTokens v) modelId))],
      Inr \<lparr>res_content = fullContent v, res_tokens = usageOf v,
           res_cost = projr (calculateLiveCost (inputTokens v) (outputTokens v) modelId)\<rparr>)"
  using calculateLiveCost_Some [OF assms, of "inputTokens v" "outputTokens v"]
  by (simp add: afterLoop_def Let_def)

lemma streamModel_known:
  assumes "getModelConfig modelId = Some cfg"
  shows "\<exists>toks fin_ev r. streamModel b modelId k sid = (toks @ [fin_ev], r) \<and>
           list_all (\<lambda>e. ev_type e = token \<and> ev_model e = k) toks \<and>
           ev_model fin_ev = k \<and>
           (if backendFails b
            then ev_type fin_ev = error \<and> (\<exists>e. r = Inl e)
            else ev_type fin_ev = complete' \<and> (\<exists>res. r = Inr res))"
proof (cases b)
  case (FailsToStart e)
  then show ?thesis
    by (simp add: streamModel_def catchBlock_known [OF assms] backendFails_def errorEvent_def)
next
  case (Yields chunks fin)
  let ?v0 = "\<lparr>fullContent = [], tokenCount = 0, inputTokens = 0, outputTokens = 0\<rparr>"
  from forAwait_known [OF assms, of k sid chunks ?v0] obtain v' sent where
    loop: "forAwait modelId k sid chunks ?v0 = (None, v', sent)"
    and toks: "list_all (\<lambda>e. ev_type e = token \<and> ev_model e = k) sent"
    by blast
  show ?thesis
  proof (cases fin)
    case None
    with Yields loop toks show ?thesis
      by (simp add: streamModel_def afterLoop_known [OF assms] backendFails_def
          completeEvent_def)
  next
    case (Some e)
    with Yields loop toks show ?thesis
      by (simp add: streamModel_def catchBlock_known [OF assms] backendFails_def
          errorEvent_def)
  qed
qed

lemma streamModel_completes:
  assumes "getModelConfig modelId = Some cfg"
  shows "\<exists>evs res. streamModel (Yields chunks None) modelId k sid = (evs, Inr res) \<and>
           res_content res = concat (map deltaOf chunks)"
proof -
  let ?v0 = "\<lparr>fullContent = [], tokenCount = 0, inputTokens = 0, outputTokens = 0\<rparr>"
  from forAwait_known [OF assms, of k sid chunks ?v0] obtain v' sent where
    "forAwait modelId k sid chunks ?v0 = (None, v', sent)"
    "fullContent v' = fullContent ?v0 @ concat (map deltaOf chunks)"
    by blast
  then show ?thesis
    by (simp add: streamModel_def afterLoop_known [OF assms])
qed

lemma sentEvents_simps:
  "sentEvents [] = []"
  "sentEvents (Send e # acts) = e # sentEvents acts"
  "sentEvents (DbCreate d # acts) = sentEvents acts"
  "sentEvents (Close # acts) = sentEvents acts"
  by (simp_all add: sentEvents_def)

lemma dbCreates_simps:
  "dbCreates [] = []"
  "dbCreates (Send e # acts) = dbCreates acts"
  "dbCreates (DbCreate d # acts) = d # dbCreates acts"
  "dbCreates (Close # acts) = dbCreates acts"
  by (simp_all add: dbCreates_def)

lemma sentEvents_append: "sentEvents (xs @ ys) = sentEvents xs @ sentEvents ys"
  by (simp add: sentEvents_def)

lemma sentEvents_Send: "sentEvents (map Send es) = es"
  by (induction es) (simp_all add: sentEvents_def)

lemma dbCreates_append: "dbCreates (xs @ ys) = dbCreates xs @ dbCreates ys"
  by (simp add: dbCreates_def)

lemma dbCreates_Send: "dbCreates (map Send es) = []"
  by (induction es) (simp_all add: dbCreates_def)

lemma split_at_create:
  "map Send es @ [DbCreate d0, Close] = pre @ DbCreate d # post \<Longrightarrow>
   pre = map Send es \<and> d = d0 \<and> post = [Close]"
  by (induction es arbitrary: pre) (auto simp: Cons_eq_append_conv)

lemma GET_accepted:
  assumes "GET w db req = (EventStream trace, db')"
  shows "\<exists>cfg1 cfg2. getModelConfig (the (q_model1 req)) = Some cfg1 \<and>
           getModelConfig (the (q_model2 req)) = Some cfg2 \<and>
           streamStart w db (the (q_session req)) (the (q_model1 req)) (the (q_model2 req))
             (the (q_prompt req)) = (trace, db')"
  using assms by (auto simp: GET_def Let_def split: if_splits prod.splits)

lemma streamStart_created:
  assumes "\<not> isl (createModelInstance (OPENAI_API_KEY w) (ANTHROPIC_API_KEY w) m1)"
      and "\<not> isl (createModelInstance (OPENAI_API_KEY w) (ANTHROPIC_API_KEY w) m2)"
  shows "streamStart w db sid m1 m2 prompt =
     (map Send ([startEvent m1 model1 sid, startEvent m2 model2 sid]
                @ interleave (schedule w) (fst (streamModel (stream1 w) m1 model1 sid))
                                           (fst (streamModel (stream2 w) m2 model2 sid)))
      @ [DbCreate (streamResultData prompt m1 m2
                     (snd (streamModel (stream1 w) m1 model1 sid))
                     (snd (streamModel (stream2 w) m2 model2 sid))), Close],
      (case prisma_prompt_create db
              (streamResultData prompt m1 m2
                 (snd (streamModel (stream1 w) m1 model1 sid))
                 (snd (streamModel (stream2 w) m2 model2 sid))) of
         Inr db' \<Rightarrow> db' | Inl e \<Rightarrow> db))"
  using assms
  by (auto simp: streamStart_def saveStreamResults_def Let_def split: sum.splits prod.splits)

lemma streamStart_failed:
  assumes "isl (createModelInstance (OPENAI_API_KEY w) (ANTHROPIC_API_KEY w) m1) \<or>
           isl (createModelInstance (OPENAI_API_KEY w) (ANTHROPIC_API_KEY w) m2)"
  shows "\<exists>e. streamStart w db sid m1 m2 prompt = (outerCatch sid m1 e, db)"
  using assms
  by (auto simp: streamStart_def split: sum.splits)

lemma streamModel_slot:
  assumes "getModelConfig modelId = Some cfg"
  shows "list_all (\<lambda>e. ev_model e = k) (fst (streamModel b modelId k sid))"
proof -
  from streamModel_known [OF assms, of b k sid] obtain toks fin_ev r where
    "streamModel b modelId k sid = (toks @ [fin_ev], r)"
    "list_all (\<lambda>e. ev_type e = token \<and> ev_model e = k) toks" "ev_model fin_ev = k"
    by blast
  then show ?thesis by (auto simp: list_all_iff)
qed

lemma streamModel_sequence:
  assumes "getModelConfig modelId = Some cfg"
  shows "slotSequence (startEvent modelId k sid # fst (streamModel b modelId k sid))"
proof -
  from streamModel_known [OF assms, of b k sid] obtain toks fin_ev r where
    sm: "streamModel b modelId k sid = (toks @ [fin_ev], r)"
    and toks: "list_all (\<lambda>e. ev_type e = token \<and> ev_model e = k) toks"
    and fin: "if backendFails b then ev_type fin_ev = error \<and> (\<exists>e. r = Inl e)
               else ev_type fin_ev = complete' \<and> (\<exists>res. r = Inr res)"
    by blast
  from fin have "isTerminal fin_ev" by (auto simp: isTerminal_def split: if_splits)
  with sm toks show ?thesis
    by (auto simp: slotSequence_def startEvent_def list_all_iff)
qed

lemma streamModel_terminated:
  assumes "getModelConfig modelId = Some cfg"
  shows "list_ex isTerminal (fst (streamModel b modelId k sid))"
proof -
  from streamModel_known [OF assms, of b k sid] obtain toks fin_ev r where
    sm: "streamModel b modelId k sid = (toks @ [fin_ev], r)"
    and fin: "if backendFails b then ev_type fin_ev = error \<and> (\<exists>e. r = Inl e)
               else ev_type fin_ev = complete' \<and> (\<exists>res. r = Inr res)"
    by blast
  from fin have "isTerminal fin_ev" by (auto simp: isTerminal_def split: if_splits)
  with sm show ?thesis by (simp add: list_ex_iff)
qed

lemma slotEvents_created:
  assumes "getModelConfig m1 = Some cfg1" and "getModelConfig m2 = Some cfg2"
  shows "slotEvents model1
           (map Send ([startEvent m1 model1 sid, startEvent m2 model2 sid]
                      @ interleave s (fst (streamModel b1 m1 model1 sid))
                                     (fst (streamModel b2 m2 model2 sid))) @ acts)
         = startEvent m1 model1 sid # fst (streamModel b1 m1 model1 sid)
           @ slotEvents model1 acts"
    and "slotEvents model2
           (map Send ([startEvent m1 model1 sid, startEvent m2 model2 sid]
                      @ interleave s (fst (streamModel b1 m1 model1 sid))
                                     (fst (streamModel b2 m2 model2 sid))) @ acts)
         = startEvent m2 model2 sid # fst (streamModel b2 m2 model2 sid)
           @ slotEvents model2 acts"
proof -
  let ?e1 = "fst (streamModel b1 m1 model1 sid)" and ?e2 = "fst (streamModel b2 m2 model2 sid)"
  have a1: "list_all (\<lambda>e. ev_model e = model1) ?e1"
    by (rule streamModel_slot [OF assms(1)])
  have a2: "list_all (\<lambda>e. ev_model e = model2) ?e2"
    by (rule streamModel_slot [OF assms(2)])
  from a2 have n2: "list_all (\<lambda>e. \<not> ev_model e = model1) ?e2"
    by (auto simp: list_all_iff)
  from a1 have n1: "list_all (\<lambda>e. \<not> ev_model e = model2) ?e1"
    by (auto simp: list_all_iff)
  have f1: "filter (\<lambda>e. ev_model e = model1) (interleave s ?e1 ?e2) = ?e1"
    by (rule interleave_filter_left [OF a1 n2])
  have f2: "filter (\<lambda>e. ev_model e = model2) (interleave s ?e1 ?e2) = ?e2"
    by (rule interleave_filter_right [OF n1 a2])
  show "slotEvents model1
           (map Send ([startEvent m1 model1 sid, startEvent m2 model2 sid]
                      @ interleave s ?e1 ?e2) @ acts)
         = startEvent m1 model1 sid # ?e1 @ slotEvents model1 acts"
    using f1 by (simp add: slotEvents_def sentEvents_append sentEvents_Send sentEvents_simps
        startEvent_def)
  show "slotEvents model2
           (map Send ([startEvent m1 model1 sid, startEvent m2 model2 sid]
                      @ interleave s ?e1 ?e2) @ acts)
         = startEvent m2 model2 sid # ?e2 @ slotEvents model2 acts"
    using f2 by (simp add: slotEvents_def sentEvents_append sentEvents_Send sentEvents_simps
        startEvent_def)
qed

lemma streamModel_outcome:
  assumes "getModelConfig modelId = Some cfg"
  shows "fst (streamModel b modelId k sid) \<noteq> []"
    and "ev_type (last (fst (streamModel b modelId k sid))) =
           (if backendFails b then error else complete')"
    and "isl (snd (streamModel b modelId k sid)) = backendFails b"
proof -
  from streamModel_known [OF assms, of b k sid] obtain toks fin_ev r where
    sm: "streamModel b modelId k sid = (toks @ [fin_ev], r)"
    and fin: "if backendFails b then ev_type fin_ev = error \<and> (\<exists>e. r = Inl e)
               else ev_type fin_ev = complete' \<and> (\<exists>res. r = Inr res)"
    by blast
  from sm show "fst (streamModel b modelId k sid) \<noteq> []" by simp
  from sm fin show "ev_type (last (fst (streamModel b modelId k sid))) =
           (if backendFails b then error else complete')"
    by (simp split: if_splits)
  from sm fin show "isl (snd (streamModel b modelId k sid)) = backendFails b"
    by (auto split: if_splits)
qed

lemma GET_created:
  assumes "GET w db req = (EventStream trace, db')" and "instancesCreated w req"
  shows "\<exists>cfg1 cfg2.
     getModelConfig (the (q_model1 req)) = Some cfg1 \<and>
     getModelConfig (the (q_model2 req)) = Some cfg2 \<and>
     trace =
       map Send ([startEvent (the (q_model1 req)) model1 (the (q_session req)),
                  startEvent (the (q_model2 req)) model2 (the (q_session req))]
                 @ interleave (schedule w)
                     (fst (streamModel (stream1 w) (the (q_model1 req)) model1 (the (q_session req))))
                     (fst (streamModel (stream2 w) (the (q_model2 req)) model2 (the (q_session req)))))
       @ [DbCreate (streamResultData (the (q_prompt req)) (the (q_model1 req)) (the (q_model2 req))
                     (snd (streamModel (stream1 w) (the (q_model1 req)) model1 (the (q_session req))))
                     (snd (streamModel (stream2 w) (the (q_model2 req)) model2 (the (q_session req))))),
          Close] \<and>
     db' = (case prisma_prompt_create db
              (streamResultData (the (q_prompt req)) (the (q_model1 req)) (the (q_model2 req))
                 (snd (streamModel (stream1 w) (the (q_model1 req)) model1 (the (q_session req))))
                 (snd (streamModel (stream2 w) (the (q_model2 req)) model2 (the (q_session req))))) of
              Inr db'' \<Rightarrow> db'' | Inl e \<Rightarrow> db)"
proof -
  from GET_accepted [OF assms(1)] obtain cfg1 cfg2 where
    c: "getModelConfig (the (q_model1 req)) = Some cfg1"
       "getModelConfig (the (q_model2 req)) = Some cfg2"
    and st: "streamStart w db (the (q_session req)) (the (q_model1 req)) (the (q_model2 req))
             (the (q_prompt req)) = (trace, db')"
    by blast
  from assms(2) have i:
    "\<not> isl (createModelInstance (OPENAI_API_KEY w) (ANTHROPIC_API_KEY w) (the (q_model1 req)))"
    "\<not> isl (createModelInstance (OPENAI_API_KEY w) (ANTHROPIC_API_KEY w) (the (q_model2 req)))"
    by (simp_all add: instancesCreated_def)
  from st streamStart_created [OF i, of db "the (q_session req)" "the (q_prompt req)"] c
  show ?thesis by simp
qed

lemma GET_schedule_accepted:
  assumes "GET w db req = (EventStream trace, db')"
  shows "\<exists>trace' db''. GET (w\<lparr>stream1 := b1, stream2 := b2, schedule := s\<rparr>) db req
           = (EventStream trace', db'')"
  using assms by (auto simp: GET_def Let_def split: if_splits prod.splits)

lemma slotEvents_tail: "slotEvents k [DbCreate d, Close] = []"
  by (simp add: slotEvents_def sentEvents_simps)

lemma GET_created_slots:
  assumes "GET w db req = (EventStream trace, db')" and "instancesCreated w req"
  shows "slotEvents model1 trace =
           startEvent (the (q_model1 req)) model1 (the (q_session req))
           # fst (streamModel (stream1 w) (the (q_model1 req)) model1 (the (q_session req)))"
    and "slotEvents model2 trace =
           startEvent (the (q_model2 req)) model2 (the (q_session req))
           # fst (streamModel (stream2 w) (the (q_model2 req)) model2 (the (q_session req)))"
proof -
  from GET_created [OF assms] obtain cfg1 cfg2 where
    c1: "getModelConfig (the (q_model1 req)) = Some cfg1" and
    c2: "getModelConfig (the (q_model2 req)) = Some cfg2" and
    tr: "trace =
       map Send ([startEvent (the (q_model1 req)) model1 (the (q_session req)),
                  startEvent (the (q_model2 req)) model2 (the (q_session req))]
                 @ interleave (schedule w)
                     (fst (streamModel (stream1 w) (the (q_model1 req)) model1 (the (q_session req))))
                     (fst (streamModel (stream2 w) (the (q_model2 req)) model2 (the (q_session req)))))
       @ [DbCreate (streamResultData (the (q_prompt req)) (the (q_model1 req)) (the (q_model2 req))
                     (snd (streamModel (stream1 w) (the (q_model1 req)) model1 (the (q_session req))))
                     (snd (streamModel (stream2 w) (the (q_model2 req)) model2 (the (q_session req))))),
          Close]"
    by blast
  show "slotEvents model1 trace =
           startEvent (the (q_model1 req)) model1 (the (q_session req))
           # fst (streamModel (stream1 w) (the (q_model1 req)) model1 (the (q_session req)))"
    by (subst tr, subst slotEvents_created(1) [OF c1 c2]) (simp add: slotEvents_tail)
  show "slotEvents model2 trace =
           startEvent (the (q_model2 req)) model2 (the (q_session req))
           # fst (streamModel (stream2 w) (the (q_model2 req)) model2 (the (q_session req)))"
    by (subst tr, subst slotEvents_created(2) [OF c1 c2]) (simp add: slotEvents_tail)
qed

text \<open>
  Claim C3, amended. For every valid request for which both model instances are created,
  the events the route sends for either slot are exactly one start event, then zero or
  more token events, then exactly one terminal event (complete or error), and nothing
  after it.
\<close>

theorem slot_sequence_when_instances_created:
  assumes "GET w db req = (EventStream trace, db')" and "instancesCreated w req"
  shows "slotSequence (slotEvents model1 trace) \<and> slotSequence (slotEvents model2 trace)"
proof -
  from GET_accepted [OF assms(1)] obtain cfg1 cfg2 where
    c1: "getModelConfig (the (q_model1 req)) = Some cfg1" and
    c2: "getModelConfig (the (q_model2 req)) = Some cfg2"
    by blast
  show ?thesis
    by (simp add: GET_created_slots [OF assms] streamModel_sequence [OF c1]
        streamModel_sequence [OF c2])
qed

lemma instancesCreated_schedule:
  "instancesCreated (w\<lparr>stream1 := b1, stream2 := b2, schedule := s\<rparr>) req = instancesCreated w req"
  by (simp add: instancesCreated_def)

lemma prisma_create_rows:
  "rows (case prisma_prompt_create db d of Inr db'' \<Rightarrow> db'' | Inl e \<Rightarrow> db) =
     (if dbError db = None then rows db @ [\<lparr>row_id = newId db, row_data = d, createdAt = now db\<rparr>]
      else rows db)"
  by (auto simp: prisma_prompt_create_def split: option.splits)

lemma GET_not_created:
  assumes "GET w db req = (EventStream trace, db')" and "\<not> instancesCreated w req"
  shows "\<exists>e. trace = outerCatch (the (q_session req)) (the (q_model1 req)) e \<and> db' = db"
proof -
  from GET_accepted [OF assms(1)] have
    st: "streamStart w db (the (q_session req)) (the (q_model1 req)) (the (q_model2 req))
             (the (q_prompt req)) = (trace, db')"
    by blast
  from assms(2) have
    "isl (createModelInstance (OPENAI_API_KEY w) (ANTHROPIC_API_KEY w) (the (q_model1 req))) \<or>
     isl (createModelInstance (OPENAI_API_KEY w) (ANTHROPIC_API_KEY w) (the (q_model2 req)))"
    by (auto simp: instancesCreated_def)
  from streamStart_failed [OF this, of db "the (q_session req)" "the (q_prompt req)"] st
  show ?thesis by auto
qed

text \<open>
  Claim C1, amended. For every accepted request the route calls \<open>create\<close> at most once,
  and the store gains at most one row; the call comes only after both slots have sent
  their terminal event, and no event is sent after it. For every accepted request for
  which both model instances are created, the call is made exactly once, the store (if it
  accepts the write) gains exactly that one row, and neither the record nor the store
  depends on the order in which the two slots' events interleave. (An accepted request
  for which \<^verbatim>\<open>createModelInstance\<close> throws writes no record at all, as the run with
  the missing API key shows.)
\<close>

theorem history_record_written_once:
  assumes "GET w db req = (EventStream trace, db')"
  shows "length (dbCreates trace) \<le> 1 \<and>
         (rows db' = rows db \<or> (\<exists>r. rows db' = rows db @ [r])) \<and>
         (\<forall>pre d post. trace = pre @ DbCreate d # post \<longrightarrow>
            slotTerminated model1 pre \<and> slotTerminated model2 pre \<and> sentEvents post = []) \<and>
         (instancesCreated w req \<longrightarrow>
            length (dbCreates trace) = 1 \<and>
            (dbError db = None \<longrightarrow> (\<exists>r. rows db' = rows db @ [r] \<and> dbCreates trace = [row_data r])) \<and>
            (\<forall>s. dbCreates (traceOf (fst (GET (w\<lparr>schedule := s\<rparr>) db req))) = dbCreates trace \<and>
                 snd (GET (w\<lparr>schedule := s\<rparr>) db req) = db'))"
proof (cases "instancesCreated w req")
  case False
  from GET_not_created [OF assms False] obtain e where
    tr: "trace = outerCatch (the (q_session req)) (the (q_model1 req)) e" and db: "db' = db"
    by blast
  have "\<And>pre d post. trace \<noteq> pre @ DbCreate d # post"
    by (auto simp: tr outerCatch_def Cons_eq_append_conv)
  moreover have "dbCreates trace = []"
    by (simp add: tr outerCatch_def dbCreates_simps)
  ultimately show ?thesis using False db by simp
next
  case True
  define sid where "sid = the (q_session req)"
  define m1 where "m1 = the (q_model1 req)"
  define m2 where "m2 = the (q_model2 req)"
  define d0 where "d0 = streamResultData (the (q_prompt req)) m1 m2
                     (snd (streamModel (stream1 w) m1 model1 sid))
                     (snd (streamModel (stream2 w) m2 model2 sid))"
  define es where "es = [startEvent m1 model1 sid, startEvent m2 model2 sid]
                 @ interleave (schedule w)
                     (fst (streamModel (stream1 w) m1 model1 sid))
                     (fst (streamModel (stream2 w) m2 model2 sid))"
  from GET_created [OF assms True] obtain cfg1 cfg2 where
    c1: "getModelConfig m1 = Some cfg1" and
    c2: "getModelConfig m2 = Some cfg2" and
    tr: "trace = map Send es @ [DbCreate d0, Close]" and
    db: "db' = (case prisma_prompt_create db d0 of Inr db'' \<Rightarrow> db'' | Inl e \<Rightarrow> db)"
    unfolding sid_def m1_def m2_def d0_def es_def by blast
  have creates: "dbCreates trace = [d0]"
    by (simp add: tr dbCreates_append dbCreates_Send dbCreates_simps)
  have rows: "rows db' = (if dbError db = None
      then rows db @ [\<lparr>row_id = newId db, row_data = d0, createdAt = now db\<rparr>] else rows db)"
    by (simp add: db prisma_create_rows)
  have t1: "slotTerminated model1 (map Send es)"
    using slotEvents_created(1) [OF c1 c2, of sid "schedule w" "stream1 w" "stream2 w" "[]"]
      streamModel_terminated [OF c1, of "stream1 w" model1 sid]
    by (simp add: slotTerminated_def es_def slotEvents_def sentEvents_simps)
  have t2: "slotTerminated model2 (map Send es)"
    using slotEvents_created(2) [OF c1 c2, of sid "schedule w" "stream1 w" "stream2 w" "[]"]
      streamModel_terminated [OF c2, of "stream2 w" model2 sid]
    by (simp add: slotTerminated_def es_def slotEvents_def sentEvents_simps)
  have split: "\<forall>pre d post. trace = pre @ DbCreate d # post \<longrightarrow>
            slotTerminated model1 pre \<and> slotTerminated model2 pre \<and> sentEvents post = []"
  proof (intro allI impI)
    fix pre d post
    assume "trace = pre @ DbCreate d # post"
    with tr have "map Send es @ [DbCreate d0, Close] = pre @ DbCreate d # post" by simp
    from split_at_create [OF this] t1 t2
    show "slotTerminated model1 pre \<and> slotTerminated model2 pre \<and> sentEvents post = []"
      by (simp add: sentEvents_simps)
  qed
  have sched: "\<forall>s. dbCreates (traceOf (fst (GET (w\<lparr>schedule := s\<rparr>) db req))) = dbCreates trace \<and>
                 snd (GET (w\<lparr>schedule := s\<rparr>) db req) = db'"
  proof
    fix s
    let ?w = "w\<lparr>schedule := s\<rparr>"
    from GET_schedule_accepted [OF assms, where s = s and ?b1.0 = "stream1 w"
        and ?b2.0 = "stream2 w"]
    obtain trace' db'' where g: "GET ?w db req = (EventStream trace', db'')"
      by auto
    have ic: "instancesCreated ?w req"
      using True by (simp add: instancesCreated_def)
    from GET_created [OF g ic] have
      "dbCreates trace' = [d0]" and "db'' = db'"
      by (simp_all add: d0_def m1_def m2_def sid_def db dbCreates_append dbCreates_Send
          dbCreates_simps)
    with g show "dbCreates (traceOf (fst (GET ?w db req))) = dbCreates trace \<and>
                 snd (GET ?w db req) = db'"
      by (simp add: traceOf_def creates)
  qed
  from creates rows split sched True show ?thesis by auto
qed

lemma streamResultData_fields:
  "(response1 (streamResultData p m1 m2 r1 r2) = None) = isl r1"
  "(cost1 (streamResultData p m1 m2 r1 r2) = None) = isl r1"
  "(response2 (streamResultData p m1 m2 r1 r2) = None) = isl r2"
  "(cost2 (streamResultData p m1 m2 r1 r2) = None) = isl r2"
  by (simp_all add: streamResultData_def split: sum.splits)

text \<open>
  Claim C2. When both slot tasks run and one backend fails (at the start or in the middle
  of its stream) while the other completes, the record handed to the store has response
  and cost for the completed slot and neither for the failed one; the completed slot ends
  with its complete event and the failed one with its error event; either slot's events
  are the same whatever the other backend does and however the two are interleaved; a
  store that accepts the write gains exactly that record; and the trace ends with the
  stream being closed.
\<close>

theorem partial_failure_isolated:
  assumes "GET w db req = (EventStream trace, db')" and "instancesCreated w req"
  shows "(\<not> backendFails (stream1 w) \<and> backendFails (stream2 w) \<longrightarrow>
            (\<exists>d. dbCreates trace = [d] \<and> response1 d \<noteq> None \<and> cost1 d \<noteq> None \<and>
                 response2 d = None \<and> cost2 d = None) \<and>
            ev_type (last (slotEvents model1 trace)) = complete' \<and>
            ev_type (last (slotEvents model2 trace)) = error) \<and>
         (backendFails (stream1 w) \<and> \<not> backendFails (stream2 w) \<longrightarrow>
            (\<exists>d. dbCreates trace = [d] \<and> response1 d = None \<and> cost1 d = None \<and>
                 response2 d \<noteq> None \<and> cost2 d \<noteq> None) \<and>
            ev_type (last (slotEvents model1 trace)) = error \<and>
            ev_type (last (slotEvents model2 trace)) = complete') \<and>
         (\<forall>b s. slotEvents model1 (traceOf (fst (GET (w\<lparr>stream2 := b, schedule := s\<rparr>) db req)))
                = slotEvents model1 trace) \<and>
         (\<forall>b s. slotEvents model2 (traceOf (fst (GET (w\<lparr>stream1 := b, schedule := s\<rparr>) db req)))
                = slotEvents model2 trace) \<and>
         (dbError db = None \<longrightarrow>
            (\<exists>r. rows db' = rows db @ [r] \<and> dbCreates trace = [row_data r])) \<and>
         last trace = Close"
proof -
  define sid where "sid = the (q_session req)"
  define m1 where "m1 = the (q_model1 req)"
  define m2 where "m2 = the (q_model2 req)"
  define d0 where "d0 = streamResultData (the (q_prompt req)) m1 m2
                     (snd (streamModel (stream1 w) m1 model1 sid))
                     (snd (streamModel (stream2 w) m2 model2 sid))"
  define es where "es = [startEvent m1 model1 sid, startEvent m2 model2 sid]
                 @ interleave (schedule w)
                     (fst (streamModel (stream1 w) m1 model1 sid))
                     (fst (streamModel (stream2 w) m2 model2 sid))"
  from GET_created [OF assms] obtain cfg1 cfg2 where
    c1: "getModelConfig m1 = Some cfg1" and
    c2: "getModelConfig m2 = Some cfg2" and
    tr: "trace = map Send es @ [DbCreate d0, Close]" and
    db: "db' = (case prisma_prompt_create db d0 of Inr db'' \<Rightarrow> db'' | Inl e \<Rightarrow> db)"
    unfolding sid_def m1_def m2_def d0_def es_def by blast
  have creates: "dbCreates trace = [d0]"
    by (simp add: tr dbCreates_append dbCreates_Send dbCreates_simps)
  have closed: "last trace = Close"
    by (simp add: tr)
  note slots = GET_created_slots [OF assms, folded sid_def m1_def m2_def]
  note o1 = streamModel_outcome [OF c1, of "stream1 w" model1 sid]
  note o2 = streamModel_outcome [OF c2, of "stream2 w" model2 sid]
  have l1: "ev_type (last (slotEvents model1 trace)) =
              (if backendFails (stream1 w) then error else complete')"
    using o1 by (simp add: slots)
  have l2: "ev_type (last (slotEvents model2 trace)) =
              (if backendFails (stream2 w) then error else complete')"
    using o2 by (simp add: slots)
  have f: "(response1 d0 = None) = backendFails (stream1 w)"
          "(cost1 d0 = None) = backendFails (stream1 w)"
          "(response2 d0 = None) = backendFails (stream2 w)"
          "(cost2 d0 = None) = backendFails (stream2 w)"
    using o1(3) o2(3) by (simp_all add: d0_def streamResultData_fields)
  have n1: "\<forall>b s. slotEvents model1 (traceOf (fst (GET (w\<lparr>stream2 := b, schedule := s\<rparr>) db req)))
                = slotEvents model1 trace"
  proof (intro allI)
    fix b s
    let ?w = "w\<lparr>stream2 := b, schedule := s\<rparr>"
    from GET_schedule_accepted [OF assms(1), where s = s and ?b1.0 = "stream1 w" and ?b2.0 = b]
    obtain trace' db'' where g: "GET ?w db req = (EventStream trace', db'')"
      by auto
    have ic: "instancesCreated ?w req"
      using assms(2) by (simp add: instancesCreated_def)
    from GET_created_slots(1) [OF g ic] g
    show "slotEvents model1 (traceOf (fst (GET ?w db req))) = slotEvents model1 trace"
      by (simp add: traceOf_def slots sid_def m1_def)
  qed
  have n2: "\<forall>b s. slotEvents model2 (traceOf (fst (GET (w\<lparr>stream1 := b, schedule := s\<rparr>) db req)))
                = slotEvents model2 trace"
  proof (intro allI)
    fix b s
    let ?w = "w\<lparr>stream1 := b, schedule := s\<rparr>"
    from GET_schedule_accepted [OF assms(1), where s = s and ?b1.0 = b and ?b2.0 = "stream2 w"]
    obtain trace' db'' where g: "GET ?w db req = (EventStream trace', db'')"
      by auto
    have ic: "instancesCreated ?w req"
      using assms(2) by (simp add: instancesCreated_def)
    from GET_created_slots(2) [OF g ic] g
    show "slotEvents model2 (traceOf (fst (GET ?w db req))) = slotEvents model2 trace"
      by (simp add: traceOf_def slots sid_def m2_def)
  qed
  have A: "\<not> backendFails (stream1 w) \<and> backendFails (stream2 w) \<longrightarrow>
            (\<exists>d. dbCreates trace = [d] \<and> response1 d \<noteq> None \<and> cost1 d \<noteq> None \<and>
                 response2 d = None \<and> cost2 d = None) \<and>
            ev_type (last (slotEvents model1 trace)) = complete' \<and>
            ev_type (last (slotEvents model2 trace)) = error"
    using creates l1 l2 f by auto
  have B: "backendFails (stream1 w) \<and> \<not> backendFails (stream2 w) \<longrightarrow>
            (\<exists>d. dbCreates trace = [d] \<and> response1 d = None \<and> cost1 d = None \<and>
                 response2 d \<noteq> None \<and> cost2 d \<noteq> None) \<and>
            ev_type (last (slotEvents model1 trace)) = error \<and>
            ev_type (last (slotEvents model2 trace)) = complete'"
    using creates l1 l2 f by auto
  have stored: "dbError db = None \<longrightarrow>
            (\<exists>r. rows db' = rows db @ [r] \<and> dbCreates trace = [row_data r])"
    by (simp add: db prisma_create_rows creates)
  from A B n1 n2 stored closed show ?thesis by blast
qed

subsection \<open>Concrete runs, the step of a slot task, the store and the reducer\<close>


text \<open>The live costs of the runs below, computed in binary64.\<close>

lemma demo_costs:
  "calculateLiveCost 0 0 ''gpt-4o-mini'' = Inr 0"
  "calculateLiveCost 0 1 ''gpt-4o-mini'' = Inr (fl (1 / 10 ^ 6))"
  "calculateLiveCost 0 2 ''gpt-4o-mini'' = Inr (fl (1 / 10 ^ 6))"
  "calculateLiveCost 0 0 ''claude-3-5-haiku-20241022'' = Inr 0"
  "calculateLiveCost 0 1 ''claude-3-5-haiku-20241022'' = Inr (fl (4 / 10 ^ 6))"
  by (simp_all add: calculateLiveCost_def calculateCost_def model_table toFixed6_def fl_eval)

lemmas route_defs = GET_def streamStart_def createModelInstance_def createOpenAIModel_def
  createAnthropicModel_def falsy_def streamModel_def onChunk_def deltaOf_def or_string_def
  catchBlock_def afterLoop_def saveStreamResults_def streamResultData_def
  prisma_prompt_create_def outerCatch_def errorMessage_def textChunk_def
  demo_costs model_table Let_def

lemma slot2Fails_run:
  "GET slot2FailsWorld demoStore demoRequest =
     (EventStream
        [Send (startEvent ''gpt-4o-mini'' model1 ''s1''),
         Send (startEvent ''claude-3-5-haiku-20241022'' model2 ''s1''),
         Send (errorEvent ''claude-3-5-haiku-20241022'' model2 ''s1'' zeroUsage 0 ''overloaded''),
         Send (tokenEvent ''gpt-4o-mini'' model1 ''s1'' ''Hel'' (vars ''Hel'' 1) (fl (1 / 10 ^ 6))),
         Send (tokenEvent ''gpt-4o-mini'' model1 ''s1'' ''lo'' (vars ''Hello'' 2) (fl (1 / 10 ^ 6))),
         Send (completeEvent ''gpt-4o-mini'' model1 ''s1'' (usageOf (vars ''Hello'' 2)) (fl (1 / 10 ^ 6))),
         DbCreate \<lparr>p_content = ''Say hi'', p_model1 = ''gpt-4o-mini'',
                   p_model2 = ''claude-3-5-haiku-20241022'',
                   response1 = Some ''Hello'', response2 = None,
                   cost1 = Some (fl (1 / 10 ^ 6)), cost2 = None\<rparr>,
         Close],
      demoStore\<lparr>rows :=
        [\<lparr>row_id = ''row1'',
          row_data = \<lparr>p_content = ''Say hi'', p_model1 = ''gpt-4o-mini'',
                   p_model2 = ''claude-3-5-haiku-20241022'',
                   response1 = Some ''Hello'', response2 = None,
                   cost1 = Some (fl (1 / 10 ^ 6)), cost2 = None\<rparr>,
          createdAt = 0\<rparr>]\<rparr>)"
  by (simp add: route_defs slot2FailsWorld_def demoStore_def demoRequest_def vars_def
      zeroUsage_def usageOf_def)

lemma slot1Fails_run:
  "GET slot1FailsWorld demoStore demoRequest =
     (EventStream
        [Send (startEvent ''gpt-4o-mini'' model1 ''s1''),
         Send (startEvent ''claude-3-5-haiku-20241022'' model2 ''s1''),
         Send (tokenEvent ''gpt-4o-mini'' model1 ''s1'' ''Hi'' (vars ''Hi'' 1) (fl (1 / 10 ^ 6))),
         Send (tokenEvent ''claude-3-5-haiku-20241022'' model2 ''s1'' ''Hello''
                 (vars ''Hello'' 1) (fl (4 / 10 ^ 6))),
         Send (errorEvent ''gpt-4o-mini'' model1 ''s1'' (usageOf (vars ''Hi'' 1)) (fl (1 / 10 ^ 6))
                 ''socket hang up''),
         Send (completeEvent ''claude-3-5-haiku-20241022'' model2 ''s1''
                 (usageOf (vars ''Hello'' 1)) (fl (4 / 10 ^ 6))),
         DbCreate \<lparr>p_content = ''Say hi'', p_model1 = ''gpt-4o-mini'',
                   p_model2 = ''claude-3-5-haiku-20241022'',
                   response1 = None, response2 = Some ''Hello'',
                   cost1 = None, cost2 = Some (fl (4 / 10 ^ 6))\<rparr>,
         Close],
      demoStore\<lparr>rows :=
        [\<lparr>row_id = ''row1'',
          row_data = \<lparr>p_content = ''Say hi'', p_model1 = ''gpt-4o-mini'',
                   p_model2 = ''claude-3-5-haiku-20241022'',
                   response1 = None, response2 = Some ''Hello'',
                   cost1 = None, cost2 = Some (fl (4 / 10 ^ 6))\<rparr>,
          createdAt = 0\<rparr>]\<rparr>)"
  by (simp add: route_defs slot1FailsWorld_def demoStore_def demoRequest_def vars_def
      zeroUsage_def usageOf_def)

lemma noKey_run:
  "GET noKeyWorld demoStore demoRequest =
     (EventStream
        [Send (errorEvent ''gpt-4o-mini'' model1 ''s1'' zeroUsage 0
                 (''OPENAI_API_KEY ist nicht gesetzt. Bitte f'' @ [CHR 0xFC] @
                  ''ge deinen API-Key in .env.local hinzu.'')),
         Close],
      demoStore)"
  by (simp add: route_defs noKeyWorld_def demoStore_def demoRequest_def zeroUsage_def)

lemma demo_instances:
  "instancesCreated slot2FailsWorld demoRequest"
  "instancesCreated slot1FailsWorld demoRequest"
  "\<not> instancesCreated noKeyWorld demoRequest"
  by (simp_all add: instancesCreated_def createModelInstance_def createOpenAIModel_def
      createAnthropicModel_def falsy_def model_table slot2FailsWorld_def slot1FailsWorld_def
      noKeyWorld_def demoRequest_def)

text \<open>
  A request with all four parameters and two registered models, sent while
  \<^verbatim>\<open>OPENAI_API_KEY\<close> is unset, is accepted (the response is the event stream), yet the
  route never calls \<open>create\<close> and the store keeps its rows, whatever the schedule.
\<close>

theorem history_record_counterexample:
  "fst (GET noKeyWorld demoStore demoRequest) =
     EventStream
       [Send (errorEvent ''gpt-4o-mini'' model1 ''s1'' zeroUsage 0
                (''OPENAI_API_KEY ist nicht gesetzt. Bitte f'' @ [CHR 0xFC] @
                 ''ge deinen API-Key in .env.local hinzu.'')),
        Close] \<and>
   dbError demoStore = None \<and>
   length (dbCreates (traceOf (fst (GET noKeyWorld demoStore demoRequest)))) = 0 \<and>
   rows (snd (GET noKeyWorld demoStore demoRequest)) = rows demoStore \<and>
   (\<forall>s. dbCreates (traceOf (fst (GET (noKeyWorld\<lparr>schedule := s\<rparr>) demoStore demoRequest)))
          = [])"
proof -
  have eq: "GET (noKeyWorld\<lparr>schedule := s\<rparr>) demoStore demoRequest =
          GET noKeyWorld demoStore demoRequest" for s
    by (simp add: route_defs noKeyWorld_def demoStore_def demoRequest_def zeroUsage_def)
  have A: "fst (GET noKeyWorld demoStore demoRequest) =
     EventStream
       [Send (errorEvent ''gpt-4o-mini'' model1 ''s1'' zeroUsage 0
                (''OPENAI_API_KEY ist nicht gesetzt. Bitte f'' @ [CHR 0xFC] @
                 ''ge deinen API-Key in .env.local hinzu.'')),
        Close]"
    by (simp add: noKey_run)
  have B: "dbError demoStore = None"
    by (simp add: demoStore_def)
  have C: "length (dbCreates (traceOf (fst (GET noKeyWorld demoStore demoRequest)))) = 0"
    by (simp add: noKey_run traceOf_def dbCreates_simps)
  have D: "rows (snd (GET noKeyWorld demoStore demoRequest)) = rows demoStore"
    by (simp add: noKey_run)
  have E: "\<forall>s. dbCreates (traceOf (fst (GET (noKeyWorld\<lparr>schedule := s\<rparr>) demoStore
                 demoRequest))) = []"
    by (simp add: eq noKey_run traceOf_def dbCreates_simps)
  from A B C D E show ?thesis
    by (intro conjI) assumption+
qed

theorem history_record_written_once_witness:
  "instancesCreated slot2FailsWorld demoRequest \<and> dbError demoStore = None \<and>
   length (dbCreates (traceOf (fst (GET slot2FailsWorld demoStore demoRequest)))) = 1 \<and>
   (\<exists>r. rows (snd (GET slot2FailsWorld demoStore demoRequest)) = rows demoStore @ [r] \<and>
        dbCreates (traceOf (fst (GET slot2FailsWorld demoStore demoRequest))) = [row_data r]) \<and>
   slotTerminated model1 (take 6 (traceOf (fst (GET slot2FailsWorld demoStore demoRequest)))) \<and>
   slotTerminated model2 (take 6 (traceOf (fst (GET slot2FailsWorld demoStore demoRequest)))) \<and>
   snd (GET (slot2FailsWorld\<lparr>schedule := [True, True, True]\<rparr>) demoStore demoRequest)
     = snd (GET slot2FailsWorld demoStore demoRequest)"
proof -
  note th = history_record_written_once [OF slot2Fails_run]
  let ?T = "traceOf (fst (GET slot2FailsWorld demoStore demoRequest))"
  have ok: "dbError demoStore = None" by (simp add: demoStore_def)
  from th demo_instances(1) have
    one: "length (dbCreates ?T) = 1" and
    row: "dbError demoStore = None \<longrightarrow>
          (\<exists>r. rows (snd (GET slot2FailsWorld demoStore demoRequest)) = rows demoStore @ [r] \<and>
               dbCreates ?T = [row_data r])" and
    sched: "snd (GET (slot2FailsWorld\<lparr>schedule := [True, True, True]\<rparr>) demoStore demoRequest)
              = snd (GET slot2FailsWorld demoStore demoRequest)"
    by (simp_all add: slot2Fails_run traceOf_def)
  have "?T = take 6 ?T @ DbCreate (hd (dbCreates ?T)) # drop 7 ?T"
    by (simp add: slot2Fails_run traceOf_def dbCreates_simps)
  with th have "slotTerminated model1 (take 6 ?T) \<and> slotTerminated model2 (take 6 ?T)"
    by (simp add: slot2Fails_run traceOf_def)
  with one row sched ok demo_instances(1) show ?thesis by blast
qed

theorem partial_failure_isolated_witness:
  "\<not> backendFails (stream1 slot2FailsWorld) \<and> backendFails (stream2 slot2FailsWorld) \<and>
   (\<exists>d. dbCreates (traceOf (fst (GET slot2FailsWorld demoStore demoRequest))) = [d] \<and>
        response1 d \<noteq> None \<and> cost1 d \<noteq> None \<and> response2 d = None \<and> cost2 d = None) \<and>
   last (traceOf (fst (GET slot2FailsWorld demoStore demoRequest))) = Close \<and>
   slotEvents model1
     (traceOf (fst (GET (slot2FailsWorld\<lparr>stream2 := Yields [] None, schedule := []\<rparr>)
                      demoStore demoRequest)))
     = slotEvents model1 (traceOf (fst (GET slot2FailsWorld demoStore demoRequest))) \<and>
   backendFails (stream1 slot1FailsWorld) \<and> \<not> backendFails (stream2 slot1FailsWorld) \<and>
   (\<exists>d. dbCreates (traceOf (fst (GET slot1FailsWorld demoStore demoRequest))) = [d] \<and>
        response1 d = None \<and> cost1 d = None \<and> response2 d \<noteq> None \<and> cost2 d \<noteq> None) \<and>
   ev_type (last (slotEvents model2 (traceOf (fst (GET slot1FailsWorld demoStore demoRequest)))))
     = complete'"
proof -
  note a = partial_failure_isolated [OF slot2Fails_run demo_instances(1)]
  note b = partial_failure_isolated [OF slot1Fails_run demo_instances(2)]
  have fa: "\<not> backendFails (stream1 slot2FailsWorld) \<and> backendFails (stream2 slot2FailsWorld)"
    by (simp add: backendFails_def slot2FailsWorld_def)
  have fb: "backendFails (stream1 slot1FailsWorld) \<and> \<not> backendFails (stream2 slot1FailsWorld)"
    by (simp add: backendFails_def slot1FailsWorld_def)
  from a fa have
    "(\<exists>d. dbCreates (traceOf (fst (GET slot2FailsWorld demoStore demoRequest))) = [d] \<and>
        response1 d \<noteq> None \<and> cost1 d \<noteq> None \<and> response2 d = None \<and> cost2 d = None) \<and>
     last (traceOf (fst (GET slot2FailsWorld demoStore demoRequest))) = Close \<and>
     slotEvents model1
       (traceOf (fst (GET (slot2FailsWorld\<lparr>stream2 := Yields [] None, schedule := []\<rparr>)
                      demoStore demoRequest)))
     = slotEvents model1 (traceOf (fst (GET slot2FailsWorld demoStore demoRequest)))"
    by (simp add: slot2Fails_run traceOf_def)
  moreover from b fb have
    "(\<exists>d. dbCreates (traceOf (fst (GET slot1FailsWorld demoStore demoRequest))) = [d] \<and>
        response1 d = None \<and> cost1 d = None \<and> response2 d \<noteq> None \<and> cost2 d \<noteq> None) \<and>
     ev_type (last (slotEvents model2 (traceOf (fst (GET slot1FailsWorld demoStore demoRequest)))))
       = complete'"
    by (simp add: slot1Fails_run traceOf_def)
  ultimately show ?thesis using fa fb by blast
qed

theorem slot_sequence_when_instances_created_witness:
  "instancesCreated slot2FailsWorld demoRequest \<and>
   slotSequence (slotEvents model1 (traceOf (fst (GET slot2FailsWorld demoStore demoRequest)))) \<and>
   slotSequence (slotEvents model2 (traceOf (fst (GET slot2FailsWorld demoStore demoRequest)))) \<and>
   slotEvents model2 (traceOf (fst (GET slot2FailsWorld demoStore demoRequest))) =
     [startEvent ''claude-3-5-haiku-20241022'' model2 ''s1'',
      errorEvent ''claude-3-5-haiku-20241022'' model2 ''s1'' zeroUsage 0 ''overloaded'']"
proof -
  have "slotEvents model2 (traceOf (fst (GET slot2FailsWorld demoStore demoRequest))) =
     [startEvent ''claude-3-5-haiku-20241022'' model2 ''s1'',
      errorEvent ''claude-3-5-haiku-20241022'' model2 ''s1'' zeroUsage 0 ''overloaded'']"
    by (simp add: slot2Fails_run traceOf_def slotEvents_def sentEvents_simps startEvent_def
        errorEvent_def tokenEvent_def completeEvent_def)
  with slot_sequence_when_instances_created [OF slot2Fails_run demo_instances(1)]
    demo_instances(1)
  show ?thesis by (simp add: slot2Fails_run traceOf_def)
qed

theorem slot_sequence_counterexample:
  "GET noKeyWorld demoStore demoRequest =
     (EventStream
        [Send (errorEvent ''gpt-4o-mini'' model1 ''s1'' zeroUsage 0
                 (''OPENAI_API_KEY ist nicht gesetzt. Bitte f'' @ [CHR 0xFC] @
                  ''ge deinen API-Key in .env.local hinzu.'')),
         Close],
      demoStore) \<and>
   \<not> slotSequence (slotEvents model1 (traceOf (fst (GET noKeyWorld demoStore demoRequest)))) \<and>
   \<not> slotSequence (slotEvents model2 (traceOf (fst (GET noKeyWorld demoStore demoRequest))))"
  by (simp add: noKey_run traceOf_def slotEvents_def sentEvents_simps slotSequence_def
      errorEvent_def)

lemma both_slots_terminate_when_created:
  assumes "GET w db req = (EventStream trace, db')" and "instancesCreated w req"
  shows "slotTerminated model1 trace \<and> slotTerminated model2 trace"
proof -
  from GET_accepted [OF assms(1)] obtain cfg1 cfg2 where
    c1: "getModelConfig (the (q_model1 req)) = Some cfg1" and
    c2: "getModelConfig (the (q_model2 req)) = Some cfg2"
    by blast
  show ?thesis
    using streamModel_terminated [OF c1] streamModel_terminated [OF c2]
    by (simp add: slotTerminated_def GET_created_slots [OF assms])
qed

text \<open>
  Claim C4 says that under every failure mode each of the two slots gets a terminal
  event. When the two slot tasks run this holds (\<open>both_slots_terminate_when_created\<close>).
  When \<^verbatim>\<open>createModelInstance\<close> throws, here for the missing \<^verbatim>\<open>OPENAI_API_KEY\<close>, the outer
  \<^verbatim>\<open>catch\<close> sends one error event, for slot \<^verbatim>\<open>model1\<close>, and closes the stream: slot
  \<^verbatim>\<open>model2\<close> gets no event at all.
\<close>

theorem missing_key_leaves_slot2_open:
  "traceOf (fst (GET noKeyWorld demoStore demoRequest)) =
     [Send (errorEvent ''gpt-4o-mini'' model1 ''s1'' zeroUsage 0
              (''OPENAI_API_KEY ist nicht gesetzt. Bitte f'' @ [CHR 0xFC] @
               ''ge deinen API-Key in .env.local hinzu.'')),
      Close] \<and>
   slotTerminated model1 (traceOf (fst (GET noKeyWorld demoStore demoRequest))) \<and>
   \<not> slotTerminated model2 (traceOf (fst (GET noKeyWorld demoStore demoRequest))) \<and>
   slotEvents model2 (traceOf (fst (GET noKeyWorld demoStore demoRequest))) = []"
  by (simp add: noKey_run traceOf_def slotTerminated_def slotEvents_def sentEvents_simps
      isTerminal_def errorEvent_def)

lemma forAwait_usage:
  assumes "getModelConfig modelId = Some cfg"
  shows "\<exists>v' sent. forAwait modelId k sid chunks v = (None, v', sent) \<and>
           list_all (\<lambda>e. ev_type e = token \<and> tu_input (tokens (ev_data e)) = inputTokens v) sent \<and>
           countsUp (outputTokens v) (map (\<lambda>e. tu_output (tokens (ev_data e))) sent) \<and>
           inputTokens v' = inputTokens v"
proof (induction chunks arbitrary: v)
  case Nil
  show ?case by simp
next
  case (Cons c rest)
  show ?case
  proof (cases "deltaOf c = []")
    case True
    with Cons [of v] show ?thesis
      by (auto simp: onChunk_known [OF assms])
  next
    case False
    let ?v = "v\<lparr>fullContent := fullContent v @ deltaOf c, tokenCount := tokenCount v + 1,
           outputTokens := outputTokens v + 1\<rparr>"
    from Cons [of ?v] obtain v' sent where
      "forAwait modelId k sid rest ?v = (None, v', sent)"
      "list_all (\<lambda>e. ev_type e = token \<and> tu_input (tokens (ev_data e)) = inputTokens ?v) sent"
      "countsUp (outputTokens ?v) (map (\<lambda>e. tu_output (tokens (ev_data e))) sent)"
      "inputTokens v' = inputTokens ?v"
      by blast
    with False show ?thesis
      by (simp add: onChunk_known [OF assms] tokenEvent_def usageOf_def)
  qed
qed

lemma streamModel_usage:
  assumes "getModelConfig modelId = Some cfg"
  shows "list_all (\<lambda>e. tu_input (tokens (ev_data e)) = 0) (fst (streamModel b modelId k sid)) \<and>
         countsUp 0 (map (\<lambda>e. tu_output (tokens (ev_data e)))
                        (filter (\<lambda>e. ev_type e = token) (fst (streamModel b modelId k sid))))"
proof (cases b)
  case (FailsToStart e)
  then show ?thesis
    by (simp add: streamModel_def catchBlock_known [OF assms] errorEvent_def usageOf_def)
next
  case (Yields chunks fin)
  let ?v0 = "\<lparr>fullContent = [], tokenCount = 0, inputTokens = 0, outputTokens = 0\<rparr>"
  from forAwait_usage [OF assms, of k sid chunks ?v0] obtain v' sent where
    loop: "forAwait modelId k sid chunks ?v0 = (None, v', sent)"
    and toks: "list_all (\<lambda>e. ev_type e = token \<and> tu_input (tokens (ev_data e)) = 0) sent"
    and up: "countsUp 0 (map (\<lambda>e. tu_output (tokens (ev_data e))) sent)"
    and inp: "inputTokens v' = 0"
    by auto
  from toks have f: "filter (\<lambda>e. ev_type e = token) sent = sent"
    by (simp add: list_all_iff)
  from toks have i: "list_all (\<lambda>e. tu_input (tokens (ev_data e)) = 0) sent"
    by (simp add: list_all_iff)
  show ?thesis
  proof (cases fin)
    case None
    with Yields loop i up inp f show ?thesis
      by (simp add: streamModel_def afterLoop_known [OF assms] completeEvent_def usageOf_def)
  next
    case (Some e)
    with Yields loop i up inp f show ?thesis
      by (simp add: streamModel_def catchBlock_known [OF assms] errorEvent_def usageOf_def)
  qed
qed

lemma forAwait_tokens:
  assumes "getModelConfig modelId = Some cfg"
  shows "\<exists>sent. forAwait modelId k sid chunks v =
           (None,
            v\<lparr>fullContent := fullContent v @ concat (map deltaOf chunks),
              tokenCount :=
                tokenCount v + real (length (filter (\<lambda>d. d \<noteq> []) (map deltaOf chunks))),
              outputTokens :=
                outputTokens v + real (length (filter (\<lambda>d. d \<noteq> []) (map deltaOf chunks)))\<rparr>,
            sent) \<and>
         length sent = length (filter (\<lambda>d. d \<noteq> []) (map deltaOf chunks)) \<and>
         (\<forall>j < length sent.
            sent ! j =
              \<lparr>ev_type = token, ev_model = k,
               ev_data = \<lparr>sr_id = sid, sr_model = modelId,
                          delta = filter (\<lambda>d. d \<noteq> []) (map deltaOf chunks) ! j,
                          tokens = \<lparr>tu_input = inputTokens v,
                                    tu_output = outputTokens v + real (Suc j),
                                    tu_total = inputTokens v + (outputTokens v + real (Suc j))\<rparr>,
                          cost = projr (calculateLiveCost (inputTokens v)
                                          (outputTokens v + real (Suc j)) modelId),
                          isComplete = False, sr_error = None\<rparr>\<rparr>)"
proof -
  define E where "E = (\<lambda>i n d.
              \<lparr>ev_type = token, ev_model = k,
               ev_data = \<lparr>sr_id = sid, sr_model = modelId, delta = d,
                          tokens = \<lparr>tu_input = i, tu_output = n, tu_total = i + n\<rparr>,
                          cost = projr (calculateLiveCost i n modelId),
                          isComplete = False, sr_error = None\<rparr>\<rparr>)"
  define U where "U = (\<lambda>(v :: streamVars) (s :: string) (n :: nat).
              v\<lparr>fullContent := fullContent v @ s, tokenCount := tokenCount v + real n,
                outputTokens := outputTokens v + real n\<rparr>)"
  define D where "D = (\<lambda>cs. filter (\<lambda>d. d \<noteq> []) (map deltaOf cs))"
  have step: "onChunk modelId k sid c v =
      (if deltaOf c = [] then (None, v, [])
       else (None, U v (deltaOf c) (Suc 0), [E (inputTokens v) (outputTokens v + 1) (deltaOf c)]))"
    for c v
    by (simp add: onChunk_known [OF assms] U_def E_def tokenEvent_def usageOf_def)
  have U0: "U v [] 0 = v" for v
    by (simp add: U_def)
  have UU: "U (U v s (Suc 0)) t n = U v (s @ t) (Suc n)" for v s t n
    by (simp add: U_def)
  have Ui: "inputTokens (U v s n) = inputTokens v" "outputTokens (U v s (Suc 0)) = outputTokens v + 1"
    for v s n
    by (simp_all add: U_def)
  have main: "\<exists>sent. forAwait modelId k sid chunks v =
                 (None, U v (concat (map deltaOf chunks)) (length (D chunks)), sent) \<and>
               length sent = length (D chunks) \<and>
               (\<forall>j < length sent.
                  sent ! j = E (inputTokens v) (outputTokens v + real (Suc j)) (D chunks ! j))"
    for v
  proof (induction chunks arbitrary: v)
    case Nil
    show ?case by (simp add: U0 D_def)
  next
    case (Cons c rest)
    show ?case
    proof (cases "deltaOf c = []")
      case True
      from Cons [of v] obtain sent where
        run: "forAwait modelId k sid rest v =
           (None, U v (concat (map deltaOf rest)) (length (D rest)), sent)"
        and len: "length sent = length (D rest)"
        and nth: "\<forall>j < length sent.
           sent ! j = E (inputTokens v) (outputTokens v + real (Suc j)) (D rest ! j)"
        by blast
      from True have D: "D (c # rest) = D rest"
        by (simp add: D_def)
      have whole: "forAwait modelId k sid (c # rest) v =
           (None, U v (concat (map deltaOf (c # rest))) (length (D (c # rest))), sent)"
        using True run by (simp add: step D)
      from whole len nth show ?thesis
        unfolding D by blast
    next
      case False
      let ?v = "U v (deltaOf c) (Suc 0)"
      let ?e = "E (inputTokens v) (outputTokens v + 1) (deltaOf c)"
      from Cons [of ?v] obtain sent where
        run: "forAwait modelId k sid rest ?v =
           (None, U ?v (concat (map deltaOf rest)) (length (D rest)), sent)"
        and len: "length sent = length (D rest)"
        and nth: "\<forall>j < length sent.
           sent ! j = E (inputTokens ?v) (outputTokens ?v + real (Suc j)) (D rest ! j)"
        by blast
      from False have D: "D (c # rest) = deltaOf c # D rest"
        by (simp add: D_def)
      have whole: "forAwait modelId k sid (c # rest) v =
           (None, U v (concat (map deltaOf (c # rest))) (length (D (c # rest))), ?e # sent)"
        using False run by (simp add: step UU D)
      have len': "length (?e # sent) = length (D (c # rest))"
        using len by (simp add: D)
      have nth': "(?e # sent) ! j =
               E (inputTokens v) (outputTokens v + real (Suc j)) (D (c # rest) ! j)"
        if j: "j < length (?e # sent)" for j
      proof (cases j)
        case 0
        then show ?thesis by (simp add: D)
      next
        case (Suc i)
        with j have "i < length sent" by simp
        with nth have "sent ! i =
            E (inputTokens ?v) (outputTokens ?v + real (Suc i)) (D rest ! i)"
          by blast
        moreover have "outputTokens v + 1 + real (Suc i) = outputTokens v + real (Suc (Suc i))"
          by simp
        ultimately show ?thesis
          using Suc by (simp only: Ui D nth_Cons_Suc)
      qed
      from whole len' nth' show ?thesis by blast
    qed
  qed
  from main [of v] show ?thesis
    unfolding E_def U_def D_def by simp
qed

lemma streamModel_tokens:
  assumes "getModelConfig modelId = Some cfg"
  shows "\<exists>sent fin_ev r.
           streamModel (Yields chunks fin) modelId k sid = (sent @ [fin_ev], r) \<and>
           length sent = length (filter (\<lambda>d. d \<noteq> []) (map deltaOf chunks)) \<and>
           (\<forall>j < length sent.
              sent ! j =
                \<lparr>ev_type = token, ev_model = k,
                 ev_data = \<lparr>sr_id = sid, sr_model = modelId,
                            delta = filter (\<lambda>d. d \<noteq> []) (map deltaOf chunks) ! j,
                            tokens = \<lparr>tu_input = 0, tu_output = real (Suc j),
                                      tu_total = real (Suc j)\<rparr>,
                            cost = projr (calculateLiveCost 0 (real (Suc j)) modelId),
                            isComplete = False, sr_error = None\<rparr>\<rparr>) \<and>
           ev_model fin_ev = k \<and>
           ev_type fin_ev = (if fin = None then complete' else error) \<and>
           tokens (ev_data fin_ev) =
             \<lparr>tu_input = 0, tu_output = real (length sent), tu_total = real (length sent)\<rparr> \<and>
           (fin = None \<longrightarrow>
              (\<exists>c. r = Inr \<lparr>res_content = concat (map deltaOf chunks),
                            res_tokens = \<lparr>tu_input = 0, tu_output = real (length sent),
                                           tu_total = real (length sent)\<rparr>,
                            res_cost = c\<rparr>))"
proof -
  let ?v0 = "\<lparr>fullContent = [], tokenCount = 0, inputTokens = 0, outputTokens = 0\<rparr>"
  let ?ds = "filter (\<lambda>d. d \<noteq> []) (map deltaOf chunks)"
  from forAwait_tokens [OF assms, of k sid chunks ?v0] obtain sent where
    run: "forAwait modelId k sid chunks ?v0 =
            (None,
             \<lparr>fullContent = concat (map deltaOf chunks), tokenCount = real (length ?ds),
              inputTokens = 0, outputTokens = real (length ?ds)\<rparr>, sent)"
    and len: "length sent = length ?ds"
    and nth: "\<forall>j < length sent.
              sent ! j =
                \<lparr>ev_type = token, ev_model = k,
                 ev_data = \<lparr>sr_id = sid, sr_model = modelId, delta = ?ds ! j,
                            tokens = \<lparr>tu_input = 0, tu_output = real (Suc j),
                                      tu_total = real (Suc j)\<rparr>,
                            cost = projr (calculateLiveCost 0 (real (Suc j)) modelId),
                            isComplete = False, sr_error = None\<rparr>\<rparr>"
    by (auto simp del: of_nat_Suc)
  show ?thesis
  proof (cases fin)
    case None
    with run len have "streamModel (Yields chunks fin) modelId k sid =
        (sent @ [completeEvent modelId k sid
                   \<lparr>tu_input = 0, tu_output = real (length sent), tu_total = real (length sent)\<rparr>
                   (projr (calculateLiveCost 0 (real (length sent)) modelId))],
         Inr \<lparr>res_content = concat (map deltaOf chunks),
              res_tokens = \<lparr>tu_input = 0, tu_output = real (length sent),
                             tu_total = real (length sent)\<rparr>,
              res_cost = projr (calculateLiveCost 0 (real (length sent)) modelId)\<rparr>)"
      by (simp add: streamModel_def afterLoop_known [OF assms] usageOf_def)
    with None len nth show ?thesis
      by (simp add: completeEvent_def del: of_nat_Suc)
  next
    case (Some e)
    with run len have "streamModel (Yields chunks fin) modelId k sid =
        (sent @ [errorEvent modelId k sid
                   \<lparr>tu_input = 0, tu_output = real (length sent), tu_total = real (length sent)\<rparr>
                   (projr (calculateLiveCost 0 (real (length sent)) modelId))
                   (errorMessage e ''Streaming-Fehler'')],
         Inl e)"
      by (simp add: streamModel_def catchBlock_known [OF assms] usageOf_def)
    with Some len nth show ?thesis
      by (simp add: errorEvent_def del: of_nat_Suc)
  qed
qed

text \<open>
  Claim C5, amended. For every chunk received while a slot of a registered model is
  streaming: when its text increment is not empty, the task appends the increment to the
  accumulated text, raises the output token count by one (the count of increments, not an
  estimate of the text), leaves the input token count as it was, computes the live cost
  with \<open>calculateLiveCost\<close> from these two counts, and sends exactly one token event
  carrying the increment, the updated usage and that cost; when the increment is empty it
  changes nothing and sends nothing. Over a whole slot task every event carries the input
  count of the start event, and the output counts of the successive token events go up by
  one from 1. The events of a slot task whose backend yields the chunks \<open>chunks\<close> are
  one token event for each non-empty increment, in the order of arrival, followed by one
  terminal event: the \<open>j\<close>-th token event (from 0) carries the \<open>j\<close>-th non-empty
  increment, input count 0, output count \<open>j + 1\<close> and the live cost of these counts;
  the terminal event carries the number of non-empty increments as output count, and a
  task that completes returns the concatenation of the increments as its text.
\<close>

theorem slot_task_token_events:
  assumes "getModelConfig modelId = Some cfg"
  shows "(deltaOf c \<noteq> [] \<longrightarrow>
            (\<exists>liveCost v'.
               calculateLiveCost (inputTokens v) (outputTokens v + 1) modelId = Inr liveCost \<and>
               onChunk modelId k sid c v =
                 (None, v',
                  [\<lparr>ev_type = token, ev_model = k,
                    ev_data = \<lparr>sr_id = sid, sr_model = modelId, delta = deltaOf c,
                               tokens = \<lparr>tu_input = inputTokens v,
                                         tu_output = outputTokens v + 1,
                                         tu_total = inputTokens v + (outputTokens v + 1)\<rparr>,
                               cost = liveCost, isComplete = False, sr_error = None\<rparr>\<rparr>]) \<and>
               v' = v\<lparr>fullContent := fullContent v @ deltaOf c,
                      tokenCount := tokenCount v + 1,
                      outputTokens := outputTokens v + 1\<rparr> \<and>
               inputTokens v' = inputTokens v)) \<and>
         (deltaOf c = [] \<longrightarrow> onChunk modelId k sid c v = (None, v, [])) \<and>
         list_all (\<lambda>e. tu_input (tokens (ev_data e)) =
                        tu_input (tokens (ev_data (startEvent modelId k sid))))
           (fst (streamModel b modelId k sid)) \<and>
         countsUp 0 (map (\<lambda>e. tu_output (tokens (ev_data e)))
                        (filter (\<lambda>e. ev_type e = token) (fst (streamModel b modelId k sid)))) \<and>
         (\<exists>sent fin_ev r.
            streamModel (Yields chunks fin) modelId k sid = (sent @ [fin_ev], r) \<and>
            length sent = length (filter (\<lambda>d. d \<noteq> []) (map deltaOf chunks)) \<and>
            (\<forall>j < length sent.
               \<exists>liveCost.
                 calculateLiveCost 0 (real (Suc j)) modelId = Inr liveCost \<and>
                 sent ! j =
                   \<lparr>ev_type = token, ev_model = k,
                    ev_data = \<lparr>sr_id = sid, sr_model = modelId,
                               delta = filter (\<lambda>d. d \<noteq> []) (map deltaOf chunks) ! j,
                               tokens = \<lparr>tu_input = 0, tu_output = real (Suc j),
                                         tu_total = real (Suc j)\<rparr>,
                               cost = liveCost, isComplete = False, sr_error = None\<rparr>\<rparr>) \<and>
            ev_model fin_ev = k \<and>
            ev_type fin_ev = (if fin = None then complete' else error) \<and>
            tokens (ev_data fin_ev) =
              \<lparr>tu_input = 0, tu_output = real (length sent), tu_total = real (length sent)\<rparr> \<and>
            (fin = None \<longrightarrow>
               (\<exists>finalCost.
                  r = Inr \<lparr>res_content = concat (map deltaOf chunks),
                           res_tokens = \<lparr>tu_input = 0, tu_output = real (length sent),
                                          tu_total = real (length sent)\<rparr>,
                           res_cost = finalCost\<rparr>)))"
proof -
  have step: "deltaOf c \<noteq> [] \<longrightarrow>
            (\<exists>liveCost v'.
               calculateLiveCost (inputTokens v) (outputTokens v + 1) modelId = Inr liveCost \<and>
               onChunk modelId k sid c v =
                 (None, v',
                  [\<lparr>ev_type = token, ev_model = k,
                    ev_data = \<lparr>sr_id = sid, sr_model = modelId, delta = deltaOf c,
                               tokens = \<lparr>tu_input = inputTokens v,
                                         tu_output = outputTokens v + 1,
                                         tu_total = inputTokens v + (outputTokens v + 1)\<rparr>,
                               cost = liveCost, isComplete = False, sr_error = None\<rparr>\<rparr>]) \<and>
               v' = v\<lparr>fullContent := fullContent v @ deltaOf c,
                      tokenCount := tokenCount v + 1,
                      outputTokens := outputTokens v + 1\<rparr> \<and>
               inputTokens v' = inputTokens v)"
    by (simp add: onChunk_known [OF assms] calculateLiveCost_Some [OF assms] tokenEvent_def
        usageOf_def)
  have skip: "deltaOf c = [] \<longrightarrow> onChunk modelId k sid c v = (None, v, [])"
    by (simp add: onChunk_known [OF assms])
  have "tu_input (tokens (ev_data (startEvent modelId k sid))) = 0"
    by (simp add: startEvent_def)
  with streamModel_usage [OF assms, of b k sid]
  have usage: "list_all (\<lambda>e. tu_input (tokens (ev_data e)) =
                        tu_input (tokens (ev_data (startEvent modelId k sid))))
           (fst (streamModel b modelId k sid)) \<and>
         countsUp 0 (map (\<lambda>e. tu_output (tokens (ev_data e)))
                        (filter (\<lambda>e. ev_type e = token) (fst (streamModel b modelId k sid))))"
    by simp
  have live: "calculateLiveCost 0 n modelId = Inr (projr (calculateLiveCost 0 n modelId))" for n
    by (simp add: calculateLiveCost_Some [OF assms])
  from streamModel_tokens [OF assms, of chunks fin k sid] obtain sent fin_ev r where
    sm: "streamModel (Yields chunks fin) modelId k sid = (sent @ [fin_ev], r)"
        "length sent = length (filter (\<lambda>d. d \<noteq> []) (map deltaOf chunks))"
        "ev_model fin_ev = k"
        "ev_type fin_ev = (if fin = None then complete' else error)"
        "tokens (ev_data fin_ev) =
           \<lparr>tu_input = 0, tu_output = real (length sent), tu_total = real (length sent)\<rparr>"
        "fin = None \<longrightarrow>
           (\<exists>finalCost.
              r = Inr \<lparr>res_content = concat (map deltaOf chunks),
                       res_tokens = \<lparr>tu_input = 0, tu_output = real (length sent),
                                      tu_total = real (length sent)\<rparr>,
                       res_cost = finalCost\<rparr>)"
    and nth: "\<forall>j < length sent.
              sent ! j =
                \<lparr>ev_type = token, ev_model = k,
                 ev_data = \<lparr>sr_id = sid, sr_model = modelId,
                            delta = filter (\<lambda>d. d \<noteq> []) (map deltaOf chunks) ! j,
                            tokens = \<lparr>tu_input = 0, tu_output = real (Suc j),
                                      tu_total = real (Suc j)\<rparr>,
                            cost = projr (calculateLiveCost 0 (real (Suc j)) modelId),
                            isComplete = False, sr_error = None\<rparr>\<rparr>"
    by blast
  from nth live have nth': "\<forall>j < length sent.
               \<exists>liveCost.
                 calculateLiveCost 0 (real (Suc j)) modelId = Inr liveCost \<and>
                 sent ! j =
                   \<lparr>ev_type = token, ev_model = k,
                    ev_data = \<lparr>sr_id = sid, sr_model = modelId,
                               delta = filter (\<lambda>d. d \<noteq> []) (map deltaOf chunks) ! j,
                               tokens = \<lparr>tu_input = 0, tu_output = real (Suc j),
                                         tu_total = real (Suc j)\<rparr>,
                               cost = liveCost, isComplete = False, sr_error = None\<rparr>\<rparr>"
    by blast
  from sm nth' have whole: "\<exists>sent fin_ev r.
            streamModel (Yields chunks fin) modelId k sid = (sent @ [fin_ev], r) \<and>
            length sent = length (filter (\<lambda>d. d \<noteq> []) (map deltaOf chunks)) \<and>
            (\<forall>j < length sent.
               \<exists>liveCost.
                 calculateLiveCost 0 (real (Suc j)) modelId = Inr liveCost \<and>
                 sent ! j =
                   \<lparr>ev_type = token, ev_model = k,
                    ev_data = \<lparr>sr_id = sid, sr_model = modelId,
                               delta = filter (\<lambda>d. d \<noteq> []) (map deltaOf chunks) ! j,
                               tokens = \<lparr>tu_input = 0, tu_output = real (Suc j),
                                         tu_total = real (Suc j)\<rparr>,
                               cost = liveCost, isComplete = False, sr_error = None\<rparr>\<rparr>) \<and>
            ev_model fin_ev = k \<and>
            ev_type fin_ev = (if fin = None then complete' else error) \<and>
            tokens (ev_data fin_ev) =
              \<lparr>tu_input = 0, tu_output = real (length sent), tu_total = real (length sent)\<rparr> \<and>
            (fin = None \<longrightarrow>
               (\<exists>finalCost.
                  r = Inr \<lparr>res_content = concat (map deltaOf chunks),
                           res_tokens = \<lparr>tu_input = 0, tu_output = real (length sent),
                                          tu_total = real (length sent)\<rparr>,
                           res_cost = finalCost\<rparr>))"
    by blast
  from step skip usage [THEN conjunct1] usage [THEN conjunct2] whole show ?thesis
    by (intro conjI) assumption+
qed

theorem slot_task_token_events_witness:
  "deltaOf (textChunk ''lo'') \<noteq> [] \<and>
   calculateLiveCost 0 2 ''gpt-4o-mini'' = Inr (fl (1 / 10 ^ 6)) \<and>
   onChunk ''gpt-4o-mini'' model1 ''s1'' (textChunk ''lo'') (vars ''Hel'' 1) =
     (None, vars ''Hello'' 2,
      [\<lparr>ev_type = token, ev_model = model1,
        ev_data = \<lparr>sr_id = ''s1'', sr_model = ''gpt-4o-mini'', delta = ''lo'',
                   tokens = \<lparr>tu_input = 0, tu_output = 2, tu_total = 2\<rparr>,
                   cost = fl (1 / 10 ^ 6), isComplete = False, sr_error = None\<rparr>\<rparr>]) \<and>
   deltaOf (textChunk []) = [] \<and>
   onChunk ''gpt-4o-mini'' model1 ''s1'' (textChunk []) (vars ''Hel'' 1) =
     (None, vars ''Hel'' 1, []) \<and>
   (\<exists>fin_ev finalCost.
      streamModel (Yields [textChunk ''Hel'', textChunk [], textChunk ''lo''] None)
          ''gpt-4o-mini'' model1 ''s1'' =
        ([\<lparr>ev_type = token, ev_model = model1,
           ev_data = \<lparr>sr_id = ''s1'', sr_model = ''gpt-4o-mini'', delta = ''Hel'',
                      tokens = \<lparr>tu_input = 0, tu_output = 1, tu_total = 1\<rparr>,
                      cost = fl (1 / 10 ^ 6), isComplete = False, sr_error = None\<rparr>\<rparr>,
          \<lparr>ev_type = token, ev_model = model1,
           ev_data = \<lparr>sr_id = ''s1'', sr_model = ''gpt-4o-mini'', delta = ''lo'',
                      tokens = \<lparr>tu_input = 0, tu_output = 2, tu_total = 2\<rparr>,
                      cost = fl (1 / 10 ^ 6), isComplete = False, sr_error = None\<rparr>\<rparr>,
          fin_ev],
         Inr \<lparr>res_content = ''Hello'',
              res_tokens = \<lparr>tu_input = 0, tu_output = 2, tu_total = 2\<rparr>,
              res_cost = finalCost\<rparr>) \<and>
      ev_type fin_ev = complete' \<and>
      tokens (ev_data fin_ev) = \<lparr>tu_input = 0, tu_output = 2, tu_total = 2\<rparr>)"
proof -
  let ?cfg = "\<lparr>mc_id = ''gpt-4o-mini'', mc_name = ''gpt-4o-mini'', displayName = ''GPT-4o Mini'',
       mc_provider = openai,
       mc_pricing = \<lparr>pricing_input = fl (15 / 100000), pricing_output = fl (6 / 10000)\<rparr>,
       maxTokens = 128000, supportsStreaming = True\<rparr>"
  let ?chunks = "[textChunk ''Hel'', textChunk [], textChunk ''lo'']"
  have some: "getModelConfig ''gpt-4o-mini'' = Some ?cfg"
    by (simp add: model_table)
  have d1: "deltaOf (textChunk ''lo'') = ''lo''" and d2: "deltaOf (textChunk []) = []"
    by (simp_all add: deltaOf_def textChunk_def or_string_def)
  have ds: "filter (\<lambda>d. d \<noteq> []) (map deltaOf ?chunks) = [''Hel'', ''lo'']"
    and cc: "concat (map deltaOf ?chunks) = ''Hello''"
    by (simp_all add: deltaOf_def textChunk_def or_string_def)
  note th = slot_task_token_events [OF some, of _ "vars ''Hel'' 1" model1 "''s1''"
      "Yields ?chunks None" ?chunks None]
  from th [of "textChunk ''lo''"] d1
  have a: "onChunk ''gpt-4o-mini'' model1 ''s1'' (textChunk ''lo'') (vars ''Hel'' 1) =
     (None, vars ''Hello'' 2,
      [\<lparr>ev_type = token, ev_model = model1,
        ev_data = \<lparr>sr_id = ''s1'', sr_model = ''gpt-4o-mini'', delta = ''lo'',
                   tokens = \<lparr>tu_input = 0, tu_output = 2, tu_total = 2\<rparr>,
                   cost = fl (1 / 10 ^ 6), isComplete = False, sr_error = None\<rparr>\<rparr>])"
    by (auto simp: vars_def demo_costs)
  from th [of "textChunk []"] d2
  have b: "onChunk ''gpt-4o-mini'' model1 ''s1'' (textChunk []) (vars ''Hel'' 1) =
     (None, vars ''Hel'' 1, [])"
    by simp
  from th [of "textChunk []"] obtain sent fin_ev r where
    sm: "streamModel (Yields ?chunks None) ''gpt-4o-mini'' model1 ''s1'' = (sent @ [fin_ev], r)"
    and len: "length sent = 2"
    and nth: "\<forall>j < length sent.
               \<exists>liveCost.
                 calculateLiveCost 0 (real (Suc j)) ''gpt-4o-mini'' = Inr liveCost \<and>
                 sent ! j =
                   \<lparr>ev_type = token, ev_model = model1,
                    ev_data = \<lparr>sr_id = ''s1'', sr_model = ''gpt-4o-mini'',
                               delta = [''Hel'', ''lo''] ! j,
                               tokens = \<lparr>tu_input = 0, tu_output = real (Suc j),
                                         tu_total = real (Suc j)\<rparr>,
                               cost = liveCost, isComplete = False, sr_error = None\<rparr>\<rparr>"
    and fin: "ev_type fin_ev = complete'"
        "tokens (ev_data fin_ev) = \<lparr>tu_input = 0, tu_output = 2, tu_total = 2\<rparr>"
    and res: "\<exists>finalCost.
                  r = Inr \<lparr>res_content = ''Hello'',
                           res_tokens = \<lparr>tu_input = 0, tu_output = 2, tu_total = 2\<rparr>,
                           res_cost = finalCost\<rparr>"
    unfolding ds cc by auto
  from len have two: "sent = [sent ! 0, sent ! 1]"
    by (auto simp: length_Suc_conv numeral_2_eq_2)
  from len have "0 < length sent" and "1 < length sent"
    by simp_all
  from nth [rule_format, OF this(1)] nth [rule_format, OF this(2)]
  have s0: "sent ! 0 =
       \<lparr>ev_type = token, ev_model = model1,
        ev_data = \<lparr>sr_id = ''s1'', sr_model = ''gpt-4o-mini'', delta = ''Hel'',
                   tokens = \<lparr>tu_input = 0, tu_output = 1, tu_total = 1\<rparr>,
                   cost = fl (1 / 10 ^ 6), isComplete = False, sr_error = None\<rparr>\<rparr>"
    and s1: "sent ! 1 =
       \<lparr>ev_type = token, ev_model = model1,
        ev_data = \<lparr>sr_id = ''s1'', sr_model = ''gpt-4o-mini'', delta = ''lo'',
                   tokens = \<lparr>tu_input = 0, tu_output = 2, tu_total = 2\<rparr>,
                   cost = fl (1 / 10 ^ 6), isComplete = False, sr_error = None\<rparr>\<rparr>"
    by (auto simp: demo_costs)
  from res obtain finalCost where
    r: "r = Inr \<lparr>res_content = ''Hello'',
                 res_tokens = \<lparr>tu_input = 0, tu_output = 2, tu_total = 2\<rparr>,
                 res_cost = finalCost\<rparr>"
    by blast
  have "sent @ [fin_ev] = [sent ! 0, sent ! 1, fin_ev]"
    by (subst two) simp
  with sm s0 s1 r have run: "streamModel (Yields ?chunks None) ''gpt-4o-mini'' model1 ''s1'' =
        ([\<lparr>ev_type = token, ev_model = model1,
           ev_data = \<lparr>sr_id = ''s1'', sr_model = ''gpt-4o-mini'', delta = ''Hel'',
                      tokens = \<lparr>tu_input = 0, tu_output = 1, tu_total = 1\<rparr>,
                      cost = fl (1 / 10 ^ 6), isComplete = False, sr_error = None\<rparr>\<rparr>,
          \<lparr>ev_type = token, ev_model = model1,
           ev_data = \<lparr>sr_id = ''s1'', sr_model = ''gpt-4o-mini'', delta = ''lo'',
                      tokens = \<lparr>tu_input = 0, tu_output = 2, tu_total = 2\<rparr>,
                      cost = fl (1 / 10 ^ 6), isComplete = False, sr_error = None\<rparr>\<rparr>,
          fin_ev],
         Inr \<lparr>res_content = ''Hello'',
              res_tokens = \<lparr>tu_input = 0, tu_output = 2, tu_total = 2\<rparr>,
              res_cost = finalCost\<rparr>)"
    by simp
  from d1 have n1: "deltaOf (textChunk ''lo'') \<noteq> []" by simp
  from n1 demo_costs(3) a d2 b run fin show ?thesis
    by blast
qed

lemma longChunk_run:
  "GET longChunkWorld demoStore demoRequest =
     (EventStream
        [Send (startEvent ''gpt-4o-mini'' model1 ''s1''),
         Send (startEvent ''claude-3-5-haiku-20241022'' model2 ''s1''),
         Send (tokenEvent ''gpt-4o-mini'' model1 ''s1'' ''Hello there, how are you''
                 (vars ''Hello there, how are you'' 1) (fl (1 / 10 ^ 6))),
         Send (completeEvent ''gpt-4o-mini'' model1 ''s1''
                 (usageOf (vars ''Hello there, how are you'' 1)) (fl (1 / 10 ^ 6))),
         Send (completeEvent ''claude-3-5-haiku-20241022'' model2 ''s1'' zeroUsage 0),
         DbCreate \<lparr>p_content = ''Say hi'', p_model1 = ''gpt-4o-mini'',
                   p_model2 = ''claude-3-5-haiku-20241022'',
                   response1 = Some ''Hello there, how are you'', response2 = Some [],
                   cost1 = Some (fl (1 / 10 ^ 6)), cost2 = Some 0\<rparr>,
         Close],
      demoStore\<lparr>rows :=
        [\<lparr>row_id = ''row1'',
          row_data = \<lparr>p_content = ''Say hi'', p_model1 = ''gpt-4o-mini'',
                   p_model2 = ''claude-3-5-haiku-20241022'',
                   response1 = Some ''Hello there, how are you'', response2 = Some [],
                   cost1 = Some (fl (1 / 10 ^ 6)), cost2 = Some 0\<rparr>,
          createdAt = 0\<rparr>]\<rparr>)"
  by (simp add: route_defs longChunkWorld_def demoStore_def demoRequest_def vars_def
      zeroUsage_def usageOf_def)

lemmas tokenizer_defs = countTokens_def countOpenAITokens_def countAnthropicTokens_def
  trim_def isWhiteSpace_def startsWith_def OPENAI_CHARS_PER_TOKEN_def
  ANTHROPIC_CHARS_PER_TOKEN_def DEFAULT_CHARS_PER_TOKEN_def

theorem token_usage_counterexample:
  "q_prompt demoRequest = Some ''Say hi'' \<and>
   sentEvents (traceOf (fst (GET longChunkWorld demoStore demoRequest))) ! 2 =
     \<lparr>ev_type = token, ev_model = model1,
      ev_data = \<lparr>sr_id = ''s1'', sr_model = ''gpt-4o-mini'',
                 delta = ''Hello there, how are you'',
                 tokens = \<lparr>tu_input = 0, tu_output = 1, tu_total = 1\<rparr>,
                 cost = fl (1 / 10 ^ 6), isComplete = False, sr_error = None\<rparr>\<rparr> \<and>
   countTokens ''Say hi'' ''gpt-4o-mini'' = 2 \<and>
   countTokens ''Hello there, how are you'' ''gpt-4o-mini'' = 6 \<and>
   slotEvents model2 (traceOf (fst (GET longChunkWorld demoStore demoRequest))) =
     [startEvent ''claude-3-5-haiku-20241022'' model2 ''s1'',
      completeEvent ''claude-3-5-haiku-20241022'' model2 ''s1'' zeroUsage 0]"
proof -
  have "q_prompt demoRequest = Some ''Say hi''"
    by (simp add: demoRequest_def)
  moreover have "countTokens ''Say hi'' ''gpt-4o-mini'' = 2"
    and "countTokens ''Hello there, how are you'' ''gpt-4o-mini'' = 6"
    by (simp_all add: tokenizer_defs)
  ultimately show ?thesis
    by (simp add: longChunk_run traceOf_def sentEvents_simps slotEvents_def tokenEvent_def
        startEvent_def completeEvent_def vars_def usageOf_def zeroUsage_def)
qed

lemma list_ex_row: "list_ex (\<lambda>r. row_id r = i) rs = (i \<in> row_id ` set rs)"
  by (auto simp: list_ex_iff)

lemma filter_none_match:
  "list_all (\<lambda>i. i \<notin> row_id ` set rs) ids \<Longrightarrow>
   filter (\<lambda>r. row_id r \<in> set ids) rs = [] \<and> filter (\<lambda>r. row_id r \<notin> set ids) rs = rs"
  by (induction rs) (auto simp: list_all_iff)

lemma filter_missing_id:
  "i \<notin> row_id ` set rs \<Longrightarrow> filter (\<lambda>r. row_id r \<noteq> i) rs = rs"
  by (induction rs) auto

text \<open>
  Claim C9, amended. With the store reachable, \<open>deleteMultipleHistoryItems\<close> reports
  success for every list of ids, with the number of rows removed (0 when none of the ids
  exists, the store then unchanged), and a second call with the same ids removes nothing
  more. \<open>deletePromptHistoryItem\<close> reports success when a row with the id exists and
  removes it; for an id that does not exist it reports failure with its fixed error text
  and leaves the store unchanged.
\<close>

theorem delete_results:
  assumes "dbError db = None"
  shows "deleteMultipleHistoryItems db ids =
           (\<lparr>success = True,
             sa_data = Some (length (filter (\<lambda>r. row_id r \<in> set ids) (rows db))),
             sa_error = None\<rparr>,
            db\<lparr>rows := filter (\<lambda>r. row_id r \<notin> set ids) (rows db)\<rparr>) \<and>
         (list_all (\<lambda>i. i \<notin> row_id ` set (rows db)) ids \<longrightarrow>
            deleteMultipleHistoryItems db ids =
              (\<lparr>success = True, sa_data = Some 0, sa_error = None\<rparr>, db)) \<and>
         deleteMultipleHistoryItems (snd (deleteMultipleHistoryItems db ids)) ids =
           (\<lparr>success = True, sa_data = Some 0, sa_error = None\<rparr>,
            snd (deleteMultipleHistoryItems db ids)) \<and>
         (i \<in> row_id ` set (rows db) \<longrightarrow>
            deletePromptHistoryItem db i =
              (\<lparr>success = True, sa_data = None, sa_error = None\<rparr>,
               db\<lparr>rows := filter (\<lambda>r. row_id r \<noteq> i) (rows db)\<rparr>)) \<and>
         (i \<notin> row_id ` set (rows db) \<longrightarrow>
            deletePromptHistoryItem db i =
              (\<lparr>success = False, sa_data = None, sa_error = Some deleteFailure\<rparr>, db))"
proof -
  have many: "deleteMultipleHistoryItems db ids =
           (\<lparr>success = True,
             sa_data = Some (length (filter (\<lambda>r. row_id r \<in> set ids) (rows db))),
             sa_error = None\<rparr>,
            db\<lparr>rows := filter (\<lambda>r. row_id r \<notin> set ids) (rows db)\<rparr>)"
    using assms by (simp add: deleteMultipleHistoryItems_def prisma_prompt_deleteMany_def)
  have none: "list_all (\<lambda>i. i \<notin> row_id ` set (rows db)) ids \<longrightarrow>
            deleteMultipleHistoryItems db ids =
              (\<lparr>success = True, sa_data = Some 0, sa_error = None\<rparr>, db)"
    using filter_none_match [of "rows db" ids] by (auto simp: many)
  have again: "deleteMultipleHistoryItems (snd (deleteMultipleHistoryItems db ids)) ids =
           (\<lparr>success = True, sa_data = Some 0, sa_error = None\<rparr>,
            snd (deleteMultipleHistoryItems db ids))"
    using assms
    by (simp add: many deleteMultipleHistoryItems_def prisma_prompt_deleteMany_def)
  have hit: "i \<in> row_id ` set (rows db) \<longrightarrow>
            deletePromptHistoryItem db i =
              (\<lparr>success = True, sa_data = None, sa_error = None\<rparr>,
               db\<lparr>rows := filter (\<lambda>r. row_id r \<noteq> i) (rows db)\<rparr>)"
    using assms
    by (simp add: deletePromptHistoryItem_def prisma_prompt_delete_def list_ex_row)
  have miss: "i \<notin> row_id ` set (rows db) \<longrightarrow>
            deletePromptHistoryItem db i =
              (\<lparr>success = False, sa_data = None, sa_error = Some deleteFailure\<rparr>, db)"
    using assms
    by (simp add: deletePromptHistoryItem_def prisma_prompt_delete_def list_ex_row
        deleteFailure_def)
  from many none again hit miss show ?thesis by blast
qed

theorem delete_results_witness:
  "dbError oneRowStore = None \<and>
   list_all (\<lambda>i. i \<notin> row_id ` set (rows oneRowStore)) [''gone'', ''never''] \<and>
   deleteMultipleHistoryItems oneRowStore [''gone'', ''never''] =
     (\<lparr>success = True, sa_data = Some 0, sa_error = None\<rparr>, oneRowStore) \<and>
   deleteMultipleHistoryItems oneRowStore [''row1'', ''gone''] =
     (\<lparr>success = True, sa_data = Some 1, sa_error = None\<rparr>, oneRowStore\<lparr>rows := []\<rparr>) \<and>
   ''row1'' \<in> row_id ` set (rows oneRowStore) \<and>
   deletePromptHistoryItem oneRowStore ''row1'' =
     (\<lparr>success = True, sa_data = None, sa_error = None\<rparr>, oneRowStore\<lparr>rows := []\<rparr>) \<and>
   ''gone'' \<notin> row_id ` set (rows oneRowStore) \<and>
   deletePromptHistoryItem oneRowStore ''gone'' =
     (\<lparr>success = False, sa_data = None, sa_error = Some deleteFailure\<rparr>, oneRowStore)"
proof -
  have ok: "dbError oneRowStore = None"
    by (simp add: oneRowStore_def)
  have rs: "row_id ` set (rows oneRowStore) = {''row1''}"
    by (simp add: oneRowStore_def)
  from delete_results [OF ok, of "[''gone'', ''never'']" "''row1''"]
       delete_results [OF ok, of "[''row1'', ''gone'']" "''gone''"]
  show ?thesis
    using ok by (simp add: rs) (simp add: oneRowStore_def)
qed

theorem delete_missing_id_counterexample:
  "dbError demoStore = None \<and> rows demoStore = [] \<and>
   deletePromptHistoryItem demoStore ''row1'' =
     (\<lparr>success = False, sa_data = None, sa_error = Some deleteFailure\<rparr>, demoStore)"
  by (simp add: deletePromptHistoryItem_def prisma_prompt_delete_def demoStore_def
      deleteFailure_def)

text \<open>
  Claim C10, amended. For every state and every error event for slot \<^verbatim>\<open>model1\<close> or
  \<^verbatim>\<open>model2\<close>, \<open>updateStreamState\<close> sets that slot's \<open>isStreaming\<close> to false and its error
  to the event's message, or to \<open>Unbekannter Fehler\<close> when the message is absent or
  empty; the slot's content, tokens and cost keep their previous values (the usage and cost
  carried by the error event are dropped), and the other slot's sub-state is unchanged.
\<close>

theorem updateStreamState_error:
  assumes "ev_type e = error" and "ev_model e = k" and "k = model1 \<or> k = model2"
  shows "isStreaming (getSlot k (updateStreamState s e)) = False \<and>
         slot_error (getSlot k (updateStreamState s e)) =
           Some (case sr_error (ev_data e) of
                   None \<Rightarrow> ''Unbekannter Fehler''
                 | Some m \<Rightarrow> (if m = [] then ''Unbekannter Fehler'' else m)) \<and>
         content (getSlot k (updateStreamState s e)) = content (getSlot k s) \<and>
         slot_tokens (getSlot k (updateStreamState s e)) = slot_tokens (getSlot k s) \<and>
         slot_cost (getSlot k (updateStreamState s e)) = slot_cost (getSlot k s) \<and>
         getSlot (if k = model1 then model2 else model1) (updateStreamState s e) =
           getSlot (if k = model1 then model2 else model1) s"
  using assms
  by (auto simp: updateStreamState_def getSlot_def setSlot_def or_string_def Let_def
      split: option.splits)

theorem updateStreamState_error_witness:
  "updateStreamState busyState
     (errorEvent ''claude-3-5-haiku-20241022'' model2 ''s1''
        \<lparr>tu_input = 0, tu_output = 7, tu_total = 7\<rparr> (fl (28 / 10 ^ 6)) ''overloaded'') =
   \<lparr>st_model1 = \<lparr>content = ''Hel'', isStreaming = True,
                  slot_tokens = \<lparr>tu_input = 0, tu_output = 1, tu_total = 1\<rparr>,
                  slot_cost = fl (1 / 10 ^ 6), slot_error = None\<rparr>,
    st_model2 = \<lparr>content = ''Hi'', isStreaming = False,
                  slot_tokens = \<lparr>tu_input = 0, tu_output = 1, tu_total = 1\<rparr>,
                  slot_cost = fl (4 / 10 ^ 6), slot_error = Some ''overloaded''\<rparr>,
    totalCost = fl (fl (1 / 10 ^ 6) + fl (4 / 10 ^ 6)), isAnyStreaming = True\<rparr>"
proof -
  let ?e = "errorEvent ''claude-3-5-haiku-20241022'' model2 ''s1''
        \<lparr>tu_input = 0, tu_output = 7, tu_total = 7\<rparr> (fl (28 / 10 ^ 6)) ''overloaded''"
  have h: "ev_type ?e = error" "ev_model ?e = model2" "model2 = model1 \<or> model2 = model2"
    by (simp_all add: errorEvent_def)
  from updateStreamState_error [OF h, of busyState]
  have slot: "st_model2 (updateStreamState busyState ?e) =
      \<lparr>content = ''Hi'', isStreaming = False,
       slot_tokens = \<lparr>tu_input = 0, tu_output = 1, tu_total = 1\<rparr>,
       slot_cost = fl (4 / 10 ^ 6), slot_error = Some ''overloaded''\<rparr>"
    and other: "st_model1 (updateStreamState busyState ?e) = st_model1 busyState"
    by (simp_all add: getSlot_def errorEvent_def busyState_def slotState.equality)
  have rest: "totalCost (updateStreamState busyState ?e) = fl (fl (1 / 10 ^ 6) + fl (4 / 10 ^ 6))"
             "isAnyStreaming (updateStreamState busyState ?e) = True"
    by (simp_all add: updateStreamState_def getSlot_def setSlot_def errorEvent_def
        busyState_def Let_def)
  from slot other rest show ?thesis
    by (simp add: streamState.equality busyState_def)
qed

theorem updateStreamState_error_counterexample:
  "sr_error (ev_data (errorEvent ''gpt-4o-mini'' model1 ''s1'' zeroUsage 0 [])) = Some [] \<and>
   slot_error (getSlot model1
     (updateStreamState busyState (errorEvent ''gpt-4o-mini'' model1 ''s1'' zeroUsage 0 [])))
     = Some ''Unbekannter Fehler''"
  by (simp add: updateStreamState_def getSlot_def setSlot_def errorEvent_def or_string_def
      Let_def)

end
